theory Spec2Isabelle
  imports Complex_Main "HOL-Library.Word"
begin

unbundle bit_operations_syntax

section \<open>FlirImageProcessor.py: the numeric core of class FLIRImage\<close>

text \<open>
  The development embeds the computations of \<^verbatim>\<open>FlirImageProcessor.py\<close> that do not
  depend on the window toolkit: the radiometric conversion of \<^verbatim>\<open>GetThermalData\<close>, the
  normalisation of \<^verbatim>\<open>RescaleImageColorMap\<close>, the extremum search of
  \<^verbatim>\<open>GetMinMaxTemperatureAndLocation\<close>, the marker callback, and the slicing done by
  \<^verbatim>\<open>AddOverlayBox\<close> and \<^verbatim>\<open>PlotMeasurementBoxes\<close>. What the program obtains from
  exiftool, PIL and matplotlib (the decoded raw image, the metadata values, the axes an
  event was delivered to) is a parameter of the functions below.
\<close>

subsection \<open>Python exceptions\<close>

datatype py_error = ZeroDivisionError | IndexError | ValueError | TypeError | AttributeError

subsection \<open>numpy float64 values\<close>

text \<open>
  A float64 is modelled by its exact real value or one of the three special values.
  Division by zero, \<open>inf - inf\<close>, \<open>0 * inf\<close> and the logarithm outside its domain
  produce the special values, as numpy does (it warns and never raises). Rounding,
  overflow of large finite results and the sign of zero are not modelled: a zero divisor
  counts as \<open>+0\<close>.
\<close>

datatype npfloat = Finite real | PosInf | NegInf | NaN

fun is_finite :: "npfloat \<Rightarrow> bool" where
  "is_finite (Finite a) = True"
| "is_finite _ = False"

fun fneg :: "npfloat \<Rightarrow> npfloat" where
  "fneg (Finite a) = Finite (- a)"
| "fneg PosInf = NegInf"
| "fneg NegInf = PosInf"
| "fneg NaN = NaN"

fun fadd :: "npfloat \<Rightarrow> npfloat \<Rightarrow> npfloat" where
  "fadd (Finite a) (Finite b) = Finite (a + b)"
| "fadd (Finite a) PosInf = PosInf"
| "fadd (Finite a) NegInf = NegInf"
| "fadd PosInf (Finite b) = PosInf"
| "fadd PosInf PosInf = PosInf"
| "fadd PosInf NegInf = NaN"
| "fadd NegInf (Finite b) = NegInf"
| "fadd NegInf PosInf = NaN"
| "fadd NegInf NegInf = NegInf"
| "fadd NaN y = NaN"
| "fadd x NaN = NaN"

definition fsub :: "npfloat \<Rightarrow> npfloat \<Rightarrow> npfloat" where
  "fsub x y = fadd x (fneg y)"

fun fmul :: "npfloat \<Rightarrow> npfloat \<Rightarrow> npfloat" where
  "fmul (Finite a) (Finite b) = Finite (a * b)"
| "fmul (Finite a) PosInf = (if a = 0 then NaN else if 0 < a then PosInf else NegInf)"
| "fmul (Finite a) NegInf = (if a = 0 then NaN else if 0 < a then NegInf else PosInf)"
| "fmul PosInf (Finite b) = (if b = 0 then NaN else if 0 < b then PosInf else NegInf)"
| "fmul NegInf (Finite b) = (if b = 0 then NaN else if 0 < b then NegInf else PosInf)"
| "fmul PosInf PosInf = PosInf"
| "fmul PosInf NegInf = NegInf"
| "fmul NegInf PosInf = NegInf"
| "fmul NegInf NegInf = PosInf"
| "fmul NaN y = NaN"
| "fmul x NaN = NaN"

fun fdiv :: "npfloat \<Rightarrow> npfloat \<Rightarrow> npfloat" where
  "fdiv (Finite a) (Finite b) =
     (if b = 0 then (if a = 0 then NaN else if 0 < a then PosInf else NegInf)
      else Finite (a / b))"
| "fdiv (Finite a) PosInf = Finite 0"
| "fdiv (Finite a) NegInf = Finite 0"
| "fdiv PosInf (Finite b) = (if 0 \<le> b then PosInf else NegInf)"
| "fdiv NegInf (Finite b) = (if 0 \<le> b then NegInf else PosInf)"
| "fdiv PosInf PosInf = NaN"
| "fdiv PosInf NegInf = NaN"
| "fdiv NegInf PosInf = NaN"
| "fdiv NegInf NegInf = NaN"
| "fdiv NaN y = NaN"
| "fdiv x NaN = NaN"

fun fexp :: "npfloat \<Rightarrow> npfloat" where
  "fexp (Finite a) = Finite (exp a)"
| "fexp PosInf = PosInf"
| "fexp NegInf = Finite 0"
| "fexp NaN = NaN"

fun flog :: "npfloat \<Rightarrow> npfloat" where
  "flog (Finite a) = (if 0 < a then Finite (ln a) else if a = 0 then NegInf else NaN)"
| "flog PosInf = PosInf"
| "flog NegInf = NaN"
| "flog NaN = NaN"

text \<open>Comparison of float64 values: every comparison with \<open>nan\<close> is false.\<close>

fun fless :: "npfloat \<Rightarrow> npfloat \<Rightarrow> bool" where
  "fless (Finite a) (Finite b) = (a < b)"
| "fless (Finite a) PosInf = True"
| "fless NegInf (Finite b) = True"
| "fless NegInf PosInf = True"
| "fless x y = False"

fun feq :: "npfloat \<Rightarrow> npfloat \<Rightarrow> bool" where
  "feq NaN y = False"
| "feq x NaN = False"
| "feq x y = (x = y)"

definition fle :: "npfloat \<Rightarrow> npfloat \<Rightarrow> bool" where
  "fle x y = (fless x y \<or> feq x y)"

text \<open>
  Division of two Python floats (\<open>/\<close> on values that are not numpy objects) raises on a
  zero divisor.
\<close>

definition py_truediv :: "real \<Rightarrow> real \<Rightarrow> py_error + real" where
  "py_truediv a b = (if b = 0 then Inl ZeroDivisionError else Inr (a / b))"

text \<open>\<open>int(x)\<close> on a Python float truncates toward zero.\<close>

definition py_int :: "real \<Rightarrow> int" where
  "py_int x = (if 0 \<le> x then \<lfloor>x\<rfloor> else \<lceil>x\<rceil>)"

subsection \<open>Python sequences\<close>

text \<open>\<open>s.split(sep)[0]\<close> for a one-character separator: the text before its first occurrence.\<close>

definition split_first :: "char \<Rightarrow> string \<Rightarrow> string" where
  "split_first sep s = takeWhile (\<lambda>c. c \<noteq> sep) s"

text \<open>
  A slice bound is normalised as Python does for a step of one: a negative bound counts
  from the end, and the result is clipped to the length.
\<close>

definition slice_bound :: "nat \<Rightarrow> int \<Rightarrow> nat" where
  "slice_bound n i = (if i < 0 then nat (max (i + int n) 0) else min (nat i) n)"

definition py_slice :: "int \<Rightarrow> int \<Rightarrow> 'a list \<Rightarrow> 'a list" where
  "py_slice start stop xs =
     (let s = slice_bound (length xs) start; e = slice_bound (length xs) stop
      in take (e - s) (drop s xs))"

text \<open>\<open>a[r0:r1, c0:c1]\<close> on a two-dimensional array, held as the list of its rows.\<close>

definition np_slice2 :: "int \<Rightarrow> int \<Rightarrow> int \<Rightarrow> int \<Rightarrow> 'a list list \<Rightarrow> 'a list list" where
  "np_slice2 r0 r1 c0 c1 a = map (py_slice c0 c1) (py_slice r0 r1 a)"

text \<open>
  Indexing one axis with an integer: an index from \<open>-n\<close> to \<open>-1\<close> counts from the end of
  the \<open>n\<close> elements, an index outside \<open>-n .. n-1\<close> raises.
\<close>

definition py_index :: "'a list \<Rightarrow> int \<Rightarrow> py_error + 'a" where
  "py_index xs i =
     (if 0 \<le> i \<and> i < int (length xs) then Inr (xs ! nat i)
      else if - int (length xs) \<le> i \<and> i < 0 then Inr (xs ! nat (i + int (length xs)))
      else Inl IndexError)"

text \<open>\<open>a[i, j]\<close> on a two-dimensional array.\<close>

definition np_index2 :: "'a list list \<Rightarrow> int \<Rightarrow> int \<Rightarrow> py_error + 'a" where
  "np_index2 a i j = (case py_index a i of Inl e \<Rightarrow> Inl e | Inr row \<Rightarrow> py_index row j)"

text \<open>An operation between an array and a scalar is applied to every element.\<close>

definition np_map :: "('a \<Rightarrow> 'b) \<Rightarrow> 'a list list \<Rightarrow> 'b list list" where
  "np_map f a = map (map f) a"

subsection \<open>GetThermalData\<close>

type_synonym raw_image = "16 word list list"
type_synonym thermal_data = "npfloat list list"

text \<open>
  Lines 151-152: the samples of the decoded PNG are byte-swapped when the text of
  \<^verbatim>\<open>ExifByteOrder\<close> before its first hyphen is \<^verbatim>\<open>Little\<close>.
\<close>

definition swap_bytes :: "16 word \<Rightarrow> 16 word" where
  "swap_bytes x = drop_bit 8 x + push_bit 8 (x AND 0x00FF)"

definition ByteOrderCorrection :: "string \<Rightarrow> raw_image \<Rightarrow> raw_image" where
  "ByteOrderCorrection ExifByteOrder ImageData =
     (if split_first CHR ''-'' ExifByteOrder = ''Little''
      then np_map swap_bytes ImageData else ImageData)"

text \<open>The integer samples enter the float arithmetic with their unsigned value.\<close>

definition of_sample :: "16 word \<Rightarrow> npfloat" where
  "of_sample x = Finite (real (unat x))"

text \<open>
  Lines 155-158. \<^verbatim>\<open>PlanckB / (RAT + 273.15)\<close> divides two Python floats and raises
  on a zero divisor; from \<^verbatim>\<open>numpy.exp\<close> on, every value is a numpy float or array.
\<close>

definition GetThermalData ::
  "real \<Rightarrow> real \<Rightarrow> real \<Rightarrow> real \<Rightarrow> real \<Rightarrow> real \<Rightarrow> real \<Rightarrow> string \<Rightarrow> raw_image
     \<Rightarrow> py_error + thermal_data" where
  "GetThermalData PlanckR1 PlanckR2 PlanckB PlanckF PlanckO Emissivity RAT ExifByteOrder RawImage =
     (let ImageData = ByteOrderCorrection ExifByteOrder RawImage in
      case py_truediv PlanckB (RAT + 273.15) of
        Inl e \<Rightarrow> Inl e
      | Inr q \<Rightarrow>
         (let ReflectedRadiationFactor =
                fsub (fdiv (Finite PlanckR1)
                           (fmul (Finite PlanckR2) (fsub (fexp (Finite q)) (Finite PlanckF))))
                     (Finite PlanckO);
              ObjectRadiation =
                np_map (\<lambda>v. fdiv v (Finite Emissivity))
                  (np_map (\<lambda>v. fsub v (fmul (Finite (1 - Emissivity)) ReflectedRadiationFactor))
                     (np_map of_sample ImageData));
              TemperatureData =
                np_map (\<lambda>v. fsub v (Finite 273.15))
                  (np_map (\<lambda>v. fdiv (Finite PlanckB) v)
                    (np_map flog
                      (np_map (\<lambda>v. fadd v (Finite PlanckF))
                        (np_map (\<lambda>v. fdiv (Finite PlanckR1) v)
                          (np_map (\<lambda>v. fmul (Finite PlanckR2) v)
                            (np_map (\<lambda>v. fadd v (Finite PlanckO)) ObjectRadiation))))))
          in Inr TemperatureData))"


subsection \<open>numpy.amin, numpy.amax, numpy.where\<close>

text \<open>
  \<^verbatim>\<open>numpy.amin\<close> and \<^verbatim>\<open>numpy.amax\<close> reduce all elements of the array; they raise
  \<^verbatim>\<open>ValueError\<close> on an array without elements, and \<open>nan\<close> propagates.
\<close>

definition np_min2 :: "npfloat \<Rightarrow> npfloat \<Rightarrow> npfloat" where
  "np_min2 a b = (if a = NaN \<or> b = NaN then NaN else if fless b a then b else a)"

definition np_max2 :: "npfloat \<Rightarrow> npfloat \<Rightarrow> npfloat" where
  "np_max2 a b = (if a = NaN \<or> b = NaN then NaN else if fless a b then b else a)"

definition np_amin :: "thermal_data \<Rightarrow> py_error + npfloat" where
  "np_amin a = (case concat a of [] \<Rightarrow> Inl ValueError | x # xs \<Rightarrow> Inr (foldl np_min2 x xs))"

definition np_amax :: "thermal_data \<Rightarrow> py_error + npfloat" where
  "np_amax a = (case concat a of [] \<Rightarrow> Inl ValueError | x # xs \<Rightarrow> Inr (foldl np_max2 x xs))"

text \<open>
  \<^verbatim>\<open>numpy.where(a == v)\<close>: the (row, column) indices of the elements equal to \<open>v\<close>, in
  row-major order. \<open>where_rows y\<close> scans the rows from row number \<open>y\<close> on.
\<close>

fun where_rows :: "nat \<Rightarrow> thermal_data \<Rightarrow> npfloat \<Rightarrow> (nat \<times> nat) list" where
  "where_rows y [] v = []"
| "where_rows y (row # rows) v =
     map (Pair y) (filter (\<lambda>x. feq (row ! x) v) [0..<length row]) @ where_rows (Suc y) rows v"

definition np_where_eq :: "thermal_data \<Rightarrow> npfloat \<Rightarrow> (nat \<times> nat) list" where
  "np_where_eq a v = where_rows 0 a v"

subsection \<open>RescaleImageColorMap\<close>

text \<open>Line 178: \<^verbatim>\<open>(ImageArray - amin(ImageArray)) / (amax(ImageArray) - amin(ImageArray))\<close>.\<close>

definition RescaleImageColorMap :: "thermal_data \<Rightarrow> py_error + thermal_data" where
  "RescaleImageColorMap ImageArray =
     (case np_amin ImageArray of Inl e \<Rightarrow> Inl e | Inr lo \<Rightarrow>
      (let Numerator = np_map (\<lambda>v. fsub v lo) ImageArray in
       case np_amax ImageArray of Inl e \<Rightarrow> Inl e | Inr hi \<Rightarrow>
       (case np_amin ImageArray of Inl e \<Rightarrow> Inl e | Inr lo' \<Rightarrow>
         (let NormalizedImage = np_map (\<lambda>v. fdiv v (fsub hi lo')) Numerator
          in Inr NormalizedImage))))"

subsection \<open>Coordinates\<close>

text \<open>
  The display is four times the thermal data in each direction. A display coordinate
  becomes an index by \<^verbatim>\<open>int(c/4)\<close> (lines 222, 225, 403-406, 433-436), an index becomes
  a display coordinate by \<^verbatim>\<open>4*i\<close> (lines 186-189, 441).
\<close>

definition ScaleDown :: "real \<Rightarrow> int" where
  "ScaleDown c = py_int (c / 4)"

definition ScaleUp :: "int \<Rightarrow> int" where
  "ScaleUp i = 4 * i"

subsection \<open>GetMinMaxTemperatureAndLocation\<close>

text \<open>
  Lines 182-192. The locations found by \<^verbatim>\<open>numpy.where\<close> are indexed with \<^verbatim>\<open>[0]\<close>,
  which raises \<^verbatim>\<open>IndexError\<close> when no element compares equal to the extremum. The
  returned locations are the pairs \<^verbatim>\<open>(4*x, 4*y)\<close>.
\<close>

definition GetMinMaxTemperatureAndLocation ::
  "thermal_data \<Rightarrow> py_error + (npfloat \<times> npfloat \<times> (int \<times> int) \<times> (int \<times> int))" where
  "GetMinMaxTemperatureAndLocation ThermalData' =
     (case np_amin ThermalData' of Inl e \<Rightarrow> Inl e | Inr lo \<Rightarrow>
      (let MinLocations = np_where_eq ThermalData' lo in
       case np_amax ThermalData' of Inl e \<Rightarrow> Inl e | Inr hi \<Rightarrow>
       (let MaxLocations = np_where_eq ThermalData' hi in
        case MinLocations of [] \<Rightarrow> Inl IndexError | (MinLocationY, MinLocationX) # _ \<Rightarrow>
        (case MaxLocations of [] \<Rightarrow> Inl IndexError | (MaxLocationY, MaxLocationX) # _ \<Rightarrow>
          (let MinTemperature = ThermalData' ! MinLocationY ! MinLocationX;
               MaxTemperature = ThermalData' ! MaxLocationY ! MaxLocationX;
               MinLocation = (ScaleUp (int MinLocationX), ScaleUp (int MinLocationY));
               MaxLocation = (ScaleUp (int MaxLocationX), ScaleUp (int MaxLocationY))
           in Inr (MinTemperature, MaxTemperature, MinLocation, MaxLocation))))))"

subsection \<open>The session: selection boxes, overlays, markers\<close>

record SelectionBox =
  X1 :: real
  X2 :: real
  Y1 :: real
  Y2 :: real

text \<open>
  A mouse event delivered inside some axes: its data coordinates and the axes, which
  matplotlib determines. Axes objects compare by identity; a natural number stands for
  the object.
\<close>

record MouseEvent =
  xdata :: real
  ydata :: real
  inaxes :: nat

record Overlay =
  OverlayAxes :: nat
  PixelWidth :: int
  PixelHeight :: int
  TemperatureArray :: thermal_data

record MeasurementPoint =
  X :: real
  Y :: real
  HostAxes :: nat
  Temperature :: npfloat

record FLIRImage =
  ThermalData :: thermal_data
  MeasurementPoints :: "MeasurementPoint list"
  MeasurementBoxes :: "SelectionBox list"
  OverlayBoxes :: "Overlay list"
  CurrentSelectionBox :: "SelectionBox option"

text \<open>Lines 194-203: a selection is stored when all four coordinates are below the bounds.\<close>

definition SelectionBoxMouseClickCallback :: "FLIRImage \<Rightarrow> MouseEvent \<Rightarrow> MouseEvent \<Rightarrow> FLIRImage" where
  "SelectionBoxMouseClickCallback self eclick erelease =
     (if xdata eclick < 640.0 \<and> xdata erelease < 640.0 \<and> ydata eclick < 480.0 \<and> ydata erelease < 480.0
      then self\<lparr>CurrentSelectionBox :=
             Some \<lparr>X1 = xdata eclick, X2 = xdata erelease, Y1 = ydata eclick, Y2 = ydata erelease\<rparr>\<rparr>
      else self)"

text \<open>
  Lines 403-407 of \<^verbatim>\<open>AddOverlayBox\<close>: the temperatures of the overlay are the slice
  \<^verbatim>\<open>ThermalData[NewY1-1:NewY2, NewX1-1:NewX2]\<close>.
\<close>

definition OverlayTemperatureArray :: "SelectionBox \<Rightarrow> thermal_data \<Rightarrow> thermal_data" where
  "OverlayTemperatureArray box ThermalData' =
     (let NewX1 = ScaleDown (X1 box);
          NewY1 = ScaleDown (Y1 box);
          NewX2 = ScaleDown (X2 box);
          NewY2 = ScaleDown (Y2 box)
      in np_slice2 (NewY1 - 1) NewY2 (NewX1 - 1) NewX2 ThermalData')"

text \<open>Line 427: the current selection is appended to the measurement boxes.\<close>

definition CreateAverageTemperatureBox :: "FLIRImage \<Rightarrow> py_error + FLIRImage" where
  "CreateAverageTemperatureBox self =
     (case CurrentSelectionBox self of
        None \<Rightarrow> Inl AttributeError
      | Some box \<Rightarrow> Inr (self\<lparr>MeasurementBoxes := MeasurementBoxes self @ [box]\<rparr>))"

text \<open>Lines 433-437 of \<^verbatim>\<open>PlotMeasurementBoxes\<close>: the same slice for an average box.\<close>

definition BoxTemperatureArray :: "SelectionBox \<Rightarrow> thermal_data \<Rightarrow> thermal_data" where
  "BoxTemperatureArray box ThermalData' =
     (let NewX1 = ScaleDown (X1 box);
          NewY1 = ScaleDown (Y1 box);
          NewX2 = ScaleDown (X2 box);
          NewY2 = ScaleDown (Y2 box)
      in np_slice2 (NewY1 - 1) NewY2 (NewX1 - 1) NewX2 ThermalData')"

text \<open>
  The builtin \<^verbatim>\<open>sum\<close> over a two-dimensional array adds its rows, element by element, to
  the integer 0. Without rows the result is that integer (\<open>None\<close> below).
\<close>

fun add_row :: "npfloat list option \<Rightarrow> npfloat list \<Rightarrow> npfloat list option" where
  "add_row None row = Some (map (fadd (Finite 0)) row)"
| "add_row (Some acc) row = Some (map2 fadd acc row)"

definition py_sum_rows :: "thermal_data \<Rightarrow> npfloat list option" where
  "py_sum_rows a = foldl add_row None a"

text \<open>The builtin \<^verbatim>\<open>sum\<close> over a one-dimensional array of floats.\<close>

definition py_sum :: "npfloat list \<Rightarrow> npfloat" where
  "py_sum xs = foldl fadd (Finite 0) xs"

definition np_size :: "'a list list \<Rightarrow> nat" where
  "np_size a = length (concat a)"

text \<open>
  Lines 437-439: \<^verbatim>\<open>sum(sum(NewTemperatureArray))/TemperatureSamples\<close>. The outer \<^verbatim>\<open>sum\<close>
  raises \<^verbatim>\<open>TypeError\<close> on the integer left by an array without rows; on an array
  with rows and without columns it returns the integer 0, and the division of two Python
  integers raises on a zero divisor.
\<close>

definition AverageTemperature :: "SelectionBox \<Rightarrow> thermal_data \<Rightarrow> py_error + npfloat" where
  "AverageTemperature box ThermalData' =
     (let NewTemperatureArray = BoxTemperatureArray box ThermalData';
          TemperatureSamples = np_size NewTemperatureArray
      in case py_sum_rows NewTemperatureArray of
           None \<Rightarrow> Inl TypeError
         | Some ColumnSums \<Rightarrow>
            (if ColumnSums = []
             then (case py_truediv 0 (real TemperatureSamples) of
                     Inl e \<Rightarrow> Inl e | Inr q \<Rightarrow> Inr (Finite q))
             else Inr (fdiv (py_sum ColumnSums) (Finite (real TemperatureSamples)))))"

text \<open>The loop of \<^verbatim>\<open>PlotMeasurementBoxes\<close>: the averages of the boxes, in order.\<close>

fun PlotMeasurementBoxes_loop :: "SelectionBox list \<Rightarrow> thermal_data \<Rightarrow> py_error + npfloat list" where
  "PlotMeasurementBoxes_loop [] ThermalData' = Inr []"
| "PlotMeasurementBoxes_loop (box # boxes) ThermalData' =
     (case AverageTemperature box ThermalData' of
        Inl e \<Rightarrow> Inl e
      | Inr a \<Rightarrow> (case PlotMeasurementBoxes_loop boxes ThermalData' of
                   Inl e \<Rightarrow> Inl e | Inr as \<Rightarrow> Inr (a # as)))"

definition PlotMeasurementBoxes :: "FLIRImage \<Rightarrow> py_error + npfloat list" where
  "PlotMeasurementBoxes self = PlotMeasurementBoxes_loop (MeasurementBoxes self) (ThermalData self)"

text \<open>
  Lines 220-223: the loop over the overlays has no \<^verbatim>\<open>break\<close>. \<^verbatim>\<open>AxesFound\<close> is set
  together with \<^verbatim>\<open>NewTemperature\<close>, so one optional value stands for both.
\<close>

fun overlay_scan :: "Overlay list \<Rightarrow> MouseEvent \<Rightarrow> npfloat option \<Rightarrow> py_error + npfloat option" where
  "overlay_scan [] event NewTemperature = Inr NewTemperature"
| "overlay_scan (overlay # overlays) event NewTemperature =
     (if inaxes event = OverlayAxes overlay
      then (case np_index2 (TemperatureArray overlay)
                   (ScaleDown (ydata event)) (ScaleDown (xdata event)) of
              Inl e \<Rightarrow> Inl e
            | Inr t \<Rightarrow> overlay_scan overlays event (Some t))
      else overlay_scan overlays event NewTemperature)"

text \<open>Lines 211-228; the drawing of the marker is left to the toolkit.\<close>

definition AddMeasurementPointMouseClickCallback :: "FLIRImage \<Rightarrow> MouseEvent \<Rightarrow> py_error + FLIRImage" where
  "AddMeasurementPointMouseClickCallback self event =
     (if xdata event > 1.0 \<and> ydata event > 1.0 then
        (case overlay_scan (OverlayBoxes self) event None of
           Inl e \<Rightarrow> Inl e
         | Inr found \<Rightarrow>
            (case (case found of
                     None \<Rightarrow> np_index2 (ThermalData self)
                                (ScaleDown (ydata event)) (ScaleDown (xdata event))
                   | Some t \<Rightarrow> Inr t) of
               Inl e \<Rightarrow> Inl e
             | Inr NewTemperature \<Rightarrow>
                 Inr (self\<lparr>MeasurementPoints := MeasurementPoints self @
                        [\<lparr>X = xdata event, Y = ydata event, HostAxes = inaxes event,
                          Temperature = NewTemperature\<rparr>]\<rparr>)))
      else Inr self)"

section \<open>The specification's formulations\<close>

text \<open>
  The three steps of the calibration as section 4.1 writes them, for one pixel, first in
  float arithmetic and then as the plain real-valued formula.
\<close>

definition spec_ReflFactor :: "real \<Rightarrow> real \<Rightarrow> real \<Rightarrow> real \<Rightarrow> real \<Rightarrow> real \<Rightarrow> npfloat" where
  "spec_ReflFactor R1 R2 B F Off RAT =
     fsub (fdiv (Finite R1) (fmul (Finite R2) (fsub (fexp (Finite (B / (RAT + 273.15)))) (Finite F))))
          (Finite Off)"

definition spec_ObjRad :: "real \<Rightarrow> npfloat \<Rightarrow> npfloat \<Rightarrow> npfloat" where
  "spec_ObjRad Emissivity ReflFactor corrected =
     fdiv (fsub corrected (fmul (Finite (1 - Emissivity)) ReflFactor)) (Finite Emissivity)"

definition spec_Temp :: "real \<Rightarrow> real \<Rightarrow> real \<Rightarrow> real \<Rightarrow> real \<Rightarrow> npfloat \<Rightarrow> npfloat" where
  "spec_Temp R1 R2 B F Off ObjRad =
     fsub (fdiv (Finite B)
             (flog (fadd (fdiv (Finite R1) (fmul (Finite R2) (fadd ObjRad (Finite Off)))) (Finite F))))
          (Finite 273.15)"

definition real_ReflFactor :: "real \<Rightarrow> real \<Rightarrow> real \<Rightarrow> real \<Rightarrow> real \<Rightarrow> real \<Rightarrow> real" where
  "real_ReflFactor R1 R2 B F Off RAT = R1 / (R2 * (exp (B / (RAT + 273.15)) - F)) - Off"

definition real_ObjRad :: "real \<Rightarrow> real \<Rightarrow> real \<Rightarrow> real" where
  "real_ObjRad Emissivity ReflFactor corrected =
     (corrected - (1 - Emissivity) * ReflFactor) / Emissivity"

definition real_Temp :: "real \<Rightarrow> real \<Rightarrow> real \<Rightarrow> real \<Rightarrow> real \<Rightarrow> real \<Rightarrow> real" where
  "real_Temp R1 R2 B F Off ObjRad = B / ln (R1 / (R2 * (ObjRad + Off)) + F) - 273.15"

text \<open>Section 4.1, step 1: \<^verbatim>\<open>corrected = (raw >> 8) | ((raw & 0xFF) << 8)\<close>.\<close>

definition spec_corrected :: "16 word \<Rightarrow> 16 word" where
  "spec_corrected raw = drop_bit 8 raw OR push_bit 8 (raw AND 0xFF)"

text \<open>
  Section 4.2 as it is worded: the subregion from one index before the truncated low
  corner up to the truncated upper index, both inclusive.
\<close>

definition spec_inclusive_region :: "SelectionBox \<Rightarrow> thermal_data \<Rightarrow> thermal_data" where
  "spec_inclusive_region box g =
     map (\<lambda>y. map (\<lambda>x. g ! nat y ! nat x) [ScaleDown (X1 box) - 1 .. ScaleDown (X2 box)])
         [ScaleDown (Y1 box) - 1 .. ScaleDown (Y2 box)]"

text \<open>Section 4.4: the unweighted mean of a list of cells.\<close>

definition spec_mean :: "npfloat list \<Rightarrow> npfloat" where
  "spec_mean cells = fdiv (foldr fadd cells (Finite 0)) (Finite (real (length cells)))"

text \<open>
  Section 4.4, \<^verbatim>\<open>SamplePoint\<close>: the first overlay, in creation order, that claims the
  point is sampled at the overlay-local index; the base field is sampled when none does.
\<close>

definition spec_SamplePoint :: "MouseEvent \<Rightarrow> Overlay list \<Rightarrow> thermal_data \<Rightarrow> py_error + npfloat" where
  "spec_SamplePoint p overlays base =
     (case find (\<lambda>ov. OverlayAxes ov = inaxes p) overlays of
        Some ov \<Rightarrow> np_index2 (TemperatureArray ov) (ScaleDown (ydata p)) (ScaleDown (xdata p))
      | None \<Rightarrow> np_index2 base (ScaleDown (ydata p)) (ScaleDown (xdata p)))"

text \<open>
  Section 4.3, \<^verbatim>\<open>MinMaxWithLocation\<close>: the grid is scanned in row-major order and the
  first cell holding the value gives the location, as (row, column).
\<close>

definition row_major_positions :: "'a list list \<Rightarrow> (nat \<times> nat) list" where
  "row_major_positions g = concat (map (\<lambda>y. map (Pair y) [0..<length (g ! y)]) [0..<length g])"

definition spec_first_location :: "thermal_data \<Rightarrow> npfloat \<Rightarrow> (nat \<times> nat) option" where
  "spec_first_location g v = find (\<lambda>(y, x). g ! y ! x = v) (row_major_positions g)"

section \<open>Example data\<close>

definition grid5 :: thermal_data where
  "grid5 = [[Finite 0, Finite 1, Finite 2, Finite 3, Finite 4],
            [Finite 10, Finite 11, Finite 12, Finite 13, Finite 14],
            [Finite 20, Finite 21, Finite 22, Finite 23, Finite 24],
            [Finite 30, Finite 31, Finite 32, Finite 33, Finite 34],
            [Finite 40, Finite 41, Finite 42, Finite 43, Finite 44]]"

definition grid4 :: thermal_data where
  "grid4 = [[Finite 1, Finite 2, Finite 3, Finite 4],
            [Finite 5, Finite 6, Finite 7, Finite 8],
            [Finite 9, Finite 10, Finite 11, Finite 12],
            [Finite 13, Finite 14, Finite 15, Finite 16]]"

definition example_session :: FLIRImage where
  "example_session =
     \<lparr>ThermalData = replicate 120 (replicate 160 (Finite 20)), MeasurementPoints = [],
      MeasurementBoxes = [], OverlayBoxes = [], CurrentSelectionBox = None\<rparr>"

definition grid_ties :: thermal_data where
  "grid_ties = [[Finite 5, Finite 1, Finite 1], [Finite 9, Finite 9, Finite 1]]"

definition marker_session :: FLIRImage where
  "marker_session =
     \<lparr>ThermalData = grid4, MeasurementPoints = [], MeasurementBoxes = [],
      OverlayBoxes =
        [\<lparr>OverlayAxes = 7, PixelWidth = 8, PixelHeight = 8,
          TemperatureArray = [[Finite 100, Finite 101], [Finite 102, Finite 103]]\<rparr>,
         \<lparr>OverlayAxes = 8, PixelWidth = 8, PixelHeight = 8,
          TemperatureArray = [[Finite 200, Finite 201], [Finite 202, Finite 203]]\<rparr>],
      CurrentSelectionBox = None\<rparr>"

section \<open>Calibration\<close>

lemma swap_bytes_eq_spec: "swap_bytes x = spec_corrected x"
proof -
  have "drop_bit 8 x AND push_bit 8 (x AND 0xFF) = 0"
    by (rule bit_word_eqI) (auto simp: bit_simps dest: bit_imp_le_length)
  thus ?thesis unfolding swap_bytes_def spec_corrected_def
    by (rule disjunctive_add_eq_or)
qed

text \<open>
  The array-at-a-time program computes, for every sample, the composition of the three
  steps; the only exception it can raise is the one of the Python division.
\<close>

lemma GetThermalData_pointwise:
  assumes "RAT + 273.15 \<noteq> 0"
  shows "GetThermalData R1 R2 B F Off E RAT order raw =
    Inr (np_map (\<lambda>s. spec_Temp R1 R2 B F Off
                        (spec_ObjRad E (spec_ReflFactor R1 R2 B F Off RAT) (of_sample s)))
           (ByteOrderCorrection order raw))"
  using assms unfolding GetThermalData_def py_truediv_def np_map_def Let_def
    spec_Temp_def spec_ObjRad_def spec_ReflFactor_def
  by (simp add: comp_def)

lemma GetThermalData_absolute_zero:
  assumes "RAT + 273.15 = 0"
  shows "GetThermalData R1 R2 B F Off E RAT order raw = Inl ZeroDivisionError"
  using assms unfolding GetThermalData_def py_truediv_def Let_def by simp

text \<open>Where no divisor vanishes and the logarithm has a positive argument, the float steps
  are the real-valued formulas.\<close>

lemma spec_ReflFactor_real:
  assumes "R2 * (exp (B / (RAT + 273.15)) - F) \<noteq> 0"
  shows "spec_ReflFactor R1 R2 B F Off RAT = Finite (real_ReflFactor R1 R2 B F Off RAT)"
  using assms by (simp add: spec_ReflFactor_def real_ReflFactor_def fsub_def)

lemma spec_ObjRad_real:
  assumes "E \<noteq> 0"
  shows "spec_ObjRad E (Finite rf) (Finite c) = Finite (real_ObjRad E rf c)"
  using assms by (simp add: spec_ObjRad_def real_ObjRad_def fsub_def)

lemma spec_Temp_real:
  assumes "R2 * (obj + Off) \<noteq> 0" and "0 < R1 / (R2 * (obj + Off)) + F"
    and "ln (R1 / (R2 * (obj + Off)) + F) \<noteq> 0"
  shows "spec_Temp R1 R2 B F Off (Finite obj) = Finite (real_Temp R1 R2 B F Off obj)"
  using assms by (simp add: spec_Temp_def real_Temp_def fsub_def)

subsection \<open>The constants of the end-to-end example\<close>

lemma example_exp: "16 < exp (1400 / (20 + 273.15) :: real) - 1"
proof -
  let ?x = "1400 / (20 + 273.15) :: real"
  have "1 + ?x + ?x\<^sup>2 / 2 \<le> exp ?x"
    by (rule exp_lower_Taylor_quadratic) simp
  moreover have "17 < 1 + ?x + ?x\<^sup>2 / 2" by (simp add: power2_eq_square)
  ultimately show ?thesis by linarith
qed

lemma example_ReflFactor:
  "spec_ReflFactor 1000 (1/100) 1400 1 0 20 = Finite (real_ReflFactor 1000 (1/100) 1400 1 0 20)"
  using example_exp by (intro spec_ReflFactor_real) simp

lemma example_ReflFactor_bounds:
  "0 < real_ReflFactor 1000 (1/100) 1400 1 0 20"
  "real_ReflFactor 1000 (1/100) 1400 1 0 20 < 10000"
proof -
  let ?d = "exp (1400 / (20 + 273.15) :: real) - 1"
  have rf: "real_ReflFactor 1000 (1/100) 1400 1 0 20 = 100000 / ?d"
    by (simp add: real_ReflFactor_def)
  show "0 < real_ReflFactor 1000 (1/100) 1400 1 0 20" using example_exp rf by simp
  have "100000 / ?d < 100000 / 16" using example_exp
    by (intro divide_strict_left_mono) auto
  thus "real_ReflFactor 1000 (1/100) 1400 1 0 20 < 10000" using rf by simp
qed

lemma example_pixel:
  assumes c: "12000 \<le> c"
  shows "spec_Temp 1000 (1/100) 1400 1 0
           (spec_ObjRad (95/100) (spec_ReflFactor 1000 (1/100) 1400 1 0 20) (Finite c)) =
         Finite (real_Temp 1000 (1/100) 1400 1 0
           (real_ObjRad (95/100) (real_ReflFactor 1000 (1/100) 1400 1 0 20) c))"
proof -
  let ?rf = "real_ReflFactor 1000 (1/100) 1400 1 0 20"
  let ?obj = "real_ObjRad (95/100) ?rf c"
  have 2: "spec_ObjRad (95/100) (Finite ?rf) (Finite c) = Finite ?obj"
    by (intro spec_ObjRad_real) simp
  have obj: "0 < ?obj"
    using example_ReflFactor_bounds c by (simp add: real_ObjRad_def)
  hence q: "0 < 1000 / (1/100 * (?obj + 0))" by simp
  have 3: "spec_Temp 1000 (1/100) 1400 1 0 (Finite ?obj) =
           Finite (real_Temp 1000 (1/100) 1400 1 0 ?obj)"
  proof (intro spec_Temp_real)
    show "1/100 * (?obj + 0) \<noteq> 0" using obj by simp
    show "0 < 1000 / (1/100 * (?obj + 0)) + 1" using q by linarith
    have "1 < 1000 / (1/100 * (?obj + 0)) + 1" using q by linarith
    hence "0 < ln (1000 / (1/100 * (?obj + 0)) + 1)" by (rule ln_gt_zero)
    thus "ln (1000 / (1/100 * (?obj + 0)) + 1) \<noteq> 0" by simp
  qed
  show ?thesis by (simp only: example_ReflFactor 2 3)
qed

lemma order_little: "split_first CHR ''-'' ''Little-endian (Intel, II)'' = ''Little''"
  by (simp add: split_first_def)

lemma order_big: "split_first CHR ''-'' ''Big-endian (Motorola, MM)'' \<noteq> ''Little''"
  by (simp add: split_first_def)

lemma swap_30000: "swap_bytes 30000 = 12405"
  by (simp add: swap_bytes_def)

text \<open>
  Claim C1, as amended. For every raw grid and all calibration constants with
  \<open>Emissivity > 0\<close> and \<open>RAT + 273.15 \<noteq> 0\<close>, \<^verbatim>\<open>GetThermalData\<close> returns the grid whose
  every pixel is step 4 applied to step 3 applied to the byte-order corrected sample,
  with the reflected-radiation factor of step 2 computed from the constants alone. The raw
  sample 30000 with R1=1000, R2=0.01, B=1400, F=1, O=0, Emissivity=0.95, RAT=20.0
  calibrates to the real value of the formula, at \<open>corrected = 30000\<close> when the byte
  order is not the little-endian one and at \<open>corrected = 12405\<close> when it is.
\<close>

theorem GetThermalData_three_step_formula:
  assumes "0 < Emissivity" and "RAT + 273.15 \<noteq> 0"
  shows "GetThermalData R1 R2 B F Off Emissivity RAT order raw =
           Inr (np_map (\<lambda>s. spec_Temp R1 R2 B F Off
                               (spec_ObjRad Emissivity (spec_ReflFactor R1 R2 B F Off RAT)
                                  (of_sample (if split_first CHR ''-'' order = ''Little''
                                              then spec_corrected s else s))))
                  raw)
         \<and> GetThermalData 1000 (1/100) 1400 1 0 (95/100) 20 ''Big-endian (Motorola, MM)'' [[30000]] =
           Inr [[Finite (1400 / ln (1000 / (1/100 * ((30000 - (1 - 95/100) *
                   (1000 / (1/100 * (exp (1400 / (20 + 273.15)) - 1)) - 0)) / (95/100) + 0)) + 1)
                 - 273.15)]]
         \<and> GetThermalData 1000 (1/100) 1400 1 0 (95/100) 20 ''Little-endian (Intel, II)'' [[30000]] =
           Inr [[Finite (1400 / ln (1000 / (1/100 * ((12405 - (1 - 95/100) *
                   (1000 / (1/100 * (exp (1400 / (20 + 273.15)) - 1)) - 0)) / (95/100) + 0)) + 1)
                 - 273.15)]]"
proof (intro conjI)
  show "GetThermalData R1 R2 B F Off Emissivity RAT order raw =
           Inr (np_map (\<lambda>s. spec_Temp R1 R2 B F Off
                               (spec_ObjRad Emissivity (spec_ReflFactor R1 R2 B F Off RAT)
                                  (of_sample (if split_first CHR ''-'' order = ''Little''
                                              then spec_corrected s else s))))
                  raw)"
    using assms(2)
    by (simp add: GetThermalData_pointwise ByteOrderCorrection_def np_map_def
          swap_bytes_eq_spec comp_def)
next
  have "GetThermalData 1000 (1/100) 1400 1 0 (95/100) 20 ''Big-endian (Motorola, MM)'' [[30000]] =
    Inr [[spec_Temp 1000 (1/100) 1400 1 0
           (spec_ObjRad (95/100) (spec_ReflFactor 1000 (1/100) 1400 1 0 20) (Finite 30000))]]"
    by (subst GetThermalData_pointwise)
       (simp_all add: ByteOrderCorrection_def order_big of_sample_def np_map_def)
  also have "\<dots> = Inr [[Finite (real_Temp 1000 (1/100) 1400 1 0
           (real_ObjRad (95/100) (real_ReflFactor 1000 (1/100) 1400 1 0 20) 30000))]]"
    by (subst example_pixel) simp_all
  finally show "GetThermalData 1000 (1/100) 1400 1 0 (95/100) 20 ''Big-endian (Motorola, MM)'' [[30000]] =
           Inr [[Finite (1400 / ln (1000 / (1/100 * ((30000 - (1 - 95/100) *
                   (1000 / (1/100 * (exp (1400 / (20 + 273.15)) - 1)) - 0)) / (95/100) + 0)) + 1)
                 - 273.15)]]"
    by (simp only: real_Temp_def real_ObjRad_def real_ReflFactor_def)
next
  have "GetThermalData 1000 (1/100) 1400 1 0 (95/100) 20 ''Little-endian (Intel, II)'' [[30000]] =
    Inr [[spec_Temp 1000 (1/100) 1400 1 0
           (spec_ObjRad (95/100) (spec_ReflFactor 1000 (1/100) 1400 1 0 20) (Finite 12405))]]"
    by (subst GetThermalData_pointwise)
       (simp_all add: ByteOrderCorrection_def order_little of_sample_def np_map_def swap_30000)
  also have "\<dots> = Inr [[Finite (real_Temp 1000 (1/100) 1400 1 0
           (real_ObjRad (95/100) (real_ReflFactor 1000 (1/100) 1400 1 0 20) 12405))]]"
    by (subst example_pixel) simp_all
  finally show "GetThermalData 1000 (1/100) 1400 1 0 (95/100) 20 ''Little-endian (Intel, II)'' [[30000]] =
           Inr [[Finite (1400 / ln (1000 / (1/100 * ((12405 - (1 - 95/100) *
                   (1000 / (1/100 * (exp (1400 / (20 + 273.15)) - 1)) - 0)) / (95/100) + 0)) + 1)
                 - 273.15)]]"
    by (simp only: real_Temp_def real_ObjRad_def real_ReflFactor_def)
qed

theorem GetThermalData_three_step_formula_witness:
  "(0::real) < 95/100 \<and> (20::real) + 273.15 \<noteq> 0 \<and>
   GetThermalData 1000 (1/100) 1400 1 0 (95/100) 20 ''Little-endian (Intel, II)'' [[30000], [255]] =
     Inr [[spec_Temp 1000 (1/100) 1400 1 0
             (spec_ObjRad (95/100) (spec_ReflFactor 1000 (1/100) 1400 1 0 20) (Finite 12405))],
          [spec_Temp 1000 (1/100) 1400 1 0
             (spec_ObjRad (95/100) (spec_ReflFactor 1000 (1/100) 1400 1 0 20) (Finite 65280))]]"
  using GetThermalData_three_step_formula
    [where Emissivity = "95/100" and RAT = 20 and ?R1.0 = 1000 and ?R2.0 = "1/100" and B = 1400
       and F = 1 and Off = 0 and order = "''Little-endian (Intel, II)''" and raw = "[[30000], [255]]"]
  by (simp add: np_map_def order_little of_sample_def spec_corrected_def)

text \<open>
  With a reflected apparent temperature of -273.15 and an emissivity of 0.95 the call
  raises \<^verbatim>\<open>ZeroDivisionError\<close> and computes no pixel.
\<close>

theorem GetThermalData_absolute_zero_counterexample:
  "GetThermalData 1000 (1/100) 1400 1 0 (95/100) (-273.15) ''Little-endian (Intel, II)'' [[30000]] =
     Inl ZeroDivisionError"
  by (rule GetThermalData_absolute_zero) simp

lemma fdiv_zero_not_finite: "\<not> is_finite (fdiv v (Finite 0))"
  by (cases v) auto

text \<open>
  Claim C2, as amended. With \<open>Emissivity = 0\<close> (and \<open>RAT + 273.15 \<noteq> 0\<close>)
  \<^verbatim>\<open>GetThermalData\<close> raises nothing: it returns a grid of the shape of the raw grid, in
  which every pixel is step 4 applied to an object radiation that is infinite or \<open>nan\<close>.
\<close>

theorem GetThermalData_zero_emissivity:
  assumes "RAT + 273.15 \<noteq> 0"
  shows "GetThermalData R1 R2 B F Off 0 RAT order raw =
           Inr (np_map (\<lambda>s. spec_Temp R1 R2 B F Off
                               (spec_ObjRad 0 (spec_ReflFactor R1 R2 B F Off RAT) (of_sample s)))
                  (ByteOrderCorrection order raw))
         \<and> \<not> is_finite (spec_ObjRad 0 (spec_ReflFactor R1 R2 B F Off RAT) (of_sample s))"
  using assms by (simp add: GetThermalData_pointwise spec_ObjRad_def fdiv_zero_not_finite)

theorem GetThermalData_zero_emissivity_witness:
  "(20::real) + 273.15 \<noteq> 0 \<and>
   GetThermalData 1000 (1/100) 1400 1 0 0 20 ''Big-endian (Motorola, MM)'' [[30000]] =
     Inr [[spec_Temp 1000 (1/100) 1400 1 0
             (spec_ObjRad 0 (spec_ReflFactor 1000 (1/100) 1400 1 0 20) (Finite 30000))]]
   \<and> \<not> is_finite (spec_ObjRad 0 (spec_ReflFactor 1000 (1/100) 1400 1 0 20) (Finite 30000))"
  using GetThermalData_zero_emissivity
    [where RAT = 20 and ?R1.0 = 1000 and ?R2.0 = "1/100" and B = 1400
       and F = 1 and Off = 0 and order = "''Big-endian (Motorola, MM)''" and raw = "[[30000]]"
       and s = 30000]
  by (simp add: np_map_def ByteOrderCorrection_def order_big of_sample_def)

text \<open>
  An emissivity of 0 with the constants of the example: the call returns the one-pixel
  grid holding \<open>inf\<close>, and no error.
\<close>

theorem GetThermalData_zero_emissivity_counterexample:
  "GetThermalData 1000 (1/100) 1400 1 0 0 20 ''Little-endian (Intel, II)'' [[30000]] = Inr [[PosInf]]"
proof -
  let ?rf = "real_ReflFactor 1000 (1/100) 1400 1 0 20"
  have "GetThermalData 1000 (1/100) 1400 1 0 0 20 ''Little-endian (Intel, II)'' [[30000]] =
    Inr [[spec_Temp 1000 (1/100) 1400 1 0 (spec_ObjRad 0 (Finite ?rf) (Finite 12405))]]"
    by (subst GetThermalData_pointwise)
       (simp_all add: ByteOrderCorrection_def order_little of_sample_def np_map_def swap_30000
          example_ReflFactor)
  moreover have "spec_ObjRad 0 (Finite ?rf) (Finite 12405) = PosInf"
    using example_ReflFactor_bounds by (simp add: spec_ObjRad_def fsub_def)
  moreover have "spec_Temp 1000 (1/100) 1400 1 0 PosInf = PosInf"
    by (simp add: spec_Temp_def fsub_def)
  ultimately show ?thesis by simp
qed

text \<open>
  Claim C3. The byte-order correction replaces every 16-bit sample by
  \<open>(raw >> 8) | ((raw & 0xFF) << 8)\<close> when the declared byte order is the little-endian
  one (its text before the first hyphen is \<^verbatim>\<open>Little\<close>), and leaves the grid unchanged
  otherwise.
\<close>

theorem ByteOrderCorrection_swaps_iff_little:
  "(split_first CHR ''-'' order = ''Little'' \<longrightarrow>
      ByteOrderCorrection order raw = np_map spec_corrected raw) \<and>
   (split_first CHR ''-'' order \<noteq> ''Little'' \<longrightarrow> ByteOrderCorrection order raw = raw)"
  by (simp add: ByteOrderCorrection_def np_map_def swap_bytes_eq_spec)

theorem ByteOrderCorrection_swaps_iff_little_witness:
  "ByteOrderCorrection ''Little-endian (Intel, II)'' [[30000, 255]] = [[12405, 65280]] \<and>
   ByteOrderCorrection ''Big-endian (Motorola, MM)'' [[30000, 255]] = [[30000, 255]]"
  using ByteOrderCorrection_swaps_iff_little [of "''Little-endian (Intel, II)''" "[[30000, 255]]"]
        ByteOrderCorrection_swaps_iff_little [of "''Big-endian (Motorola, MM)''" "[[30000, 255]]"]
  by (simp add: order_little order_big np_map_def spec_corrected_def)

section \<open>Coordinates\<close>

text \<open>
  Claim C9. For every non-negative display coordinate, the index is the floor of the
  coordinate divided by 4, and scaling the index back up lands at a distance of less
  than 4 from the coordinate.
\<close>

theorem ScaleDown_ScaleUp_round_trip:
  assumes "0 \<le> c"
  shows "ScaleDown c = \<lfloor>c / 4\<rfloor> \<and> \<bar>c - real_of_int (ScaleUp (ScaleDown c))\<bar> < 4"
  using assms unfolding ScaleDown_def ScaleUp_def py_int_def by (auto; linarith)

theorem ScaleDown_ScaleUp_round_trip_witness:
  "(0::real) \<le> 637.5 \<and> ScaleDown 637.5 = 159 \<and> ScaleUp (ScaleDown 637.5) = 636
   \<and> \<bar>637.5 - real_of_int (ScaleUp (ScaleDown 637.5))\<bar> < 4"
proof -
  have h: "(0::real) \<le> 637.5" by simp
  have f: "\<lfloor>637.5 / 4 :: real\<rfloor> = 159" by linarith
  from ScaleDown_ScaleUp_round_trip [OF h] f show ?thesis
    by (simp add: ScaleUp_def)
qed

section \<open>Subregions and averages\<close>

subsection \<open>Slices\<close>

lemma take_drop_nth: "m + k \<le> length xs \<Longrightarrow> take k (drop m xs) = map ((!) xs) [m..<m + k]"
  by (rule nth_equalityI) auto

lemma slice_bound_in_range: "0 \<le> i \<Longrightarrow> i \<le> int n \<Longrightarrow> slice_bound n i = nat i"
  unfolding slice_bound_def by auto

lemma slice_bound_minus_one: "0 < n \<Longrightarrow> slice_bound n (- 1) = n - 1"
  unfolding slice_bound_def by auto

lemma slice_bound_le: "slice_bound n i \<le> n"
  unfolding slice_bound_def by auto

lemma py_slice_nat:
  assumes "0 \<le> a" and "0 \<le> b" and "b \<le> int (length xs)"
  shows "py_slice a b xs = map ((!) xs) [nat a..<nat b]"
proof (cases "a \<le> b")
  case True
  hence "py_slice a b xs = take (nat b - nat a) (drop (nat a) xs)"
    using assms by (simp add: py_slice_def Let_def slice_bound_in_range)
  also have "\<dots> = map ((!) xs) [nat a..<nat a + (nat b - nat a)]"
    using True assms by (intro take_drop_nth) linarith
  finally show ?thesis using True assms by simp
next
  case False
  have "slice_bound (length xs) b = nat b"
    using assms by (simp add: slice_bound_in_range)
  moreover have "nat b \<le> slice_bound (length xs) a"
    using False assms unfolding slice_bound_def by auto
  ultimately have "py_slice a b xs = []"
    by (simp add: py_slice_def Let_def)
  thus ?thesis using False by simp
qed

lemma py_slice_minus_one:
  assumes "0 \<le> b" and "b < int (length xs)"
  shows "py_slice (- 1) b xs = []"
proof -
  have "slice_bound (length xs) b = nat b"
    using assms by (simp add: slice_bound_in_range)
  moreover have "slice_bound (length xs) (- 1) = length xs - 1"
    using assms by (intro slice_bound_minus_one) auto
  moreover have "nat b \<le> length xs - 1" using assms by linarith
  ultimately show ?thesis by (simp add: py_slice_def Let_def)
qed

lemma length_py_slice:
  "length (py_slice a b xs) = slice_bound (length xs) b - slice_bound (length xs) a"
  by (auto simp: py_slice_def Let_def slice_bound_def)

lemma Box_eq_Overlay: "BoxTemperatureArray box g = OverlayTemperatureArray box g"
  by (simp add: BoxTemperatureArray_def OverlayTemperatureArray_def)

lemma ScaleDown_nonneg: "0 \<le> c \<Longrightarrow> 0 \<le> ScaleDown c"
  by (simp add: ScaleDown_def py_int_def)

lemma ScaleDown_ge_one: "4 \<le> c \<Longrightarrow> 1 \<le> ScaleDown c"
  unfolding ScaleDown_def py_int_def by (auto; linarith)

lemma ScaleDown_low_zero: "0 \<le> c \<Longrightarrow> c < 4 \<Longrightarrow> ScaleDown c = 0"
  unfolding ScaleDown_def py_int_def by (auto; linarith)

lemma ScaleDown_less: "0 \<le> c \<Longrightarrow> c < 4 * real n \<Longrightarrow> ScaleDown c < int n"
  unfolding ScaleDown_def py_int_def by (auto; linarith)

lemma OverlayTemperatureArray_half_open:
  assumes rect: "\<forall>row\<in>set g. length row = w"
    and x: "4 \<le> X1 box" "0 \<le> X2 box" "ScaleDown (X2 box) \<le> int w"
    and y: "4 \<le> Y1 box" "0 \<le> Y2 box" "ScaleDown (Y2 box) \<le> int (length g)"
  shows "OverlayTemperatureArray box g =
           map (\<lambda>y. map (\<lambda>x. g ! y ! x) [nat (ScaleDown (X1 box) - 1)..<nat (ScaleDown (X2 box))])
               [nat (ScaleDown (Y1 box) - 1)..<nat (ScaleDown (Y2 box))]"
proof -
  let ?x1 = "ScaleDown (X1 box)" and ?x2 = "ScaleDown (X2 box)"
  let ?y1 = "ScaleDown (Y1 box)" and ?y2 = "ScaleDown (Y2 box)"
  have x1: "0 \<le> ?x1 - 1" and y1: "0 \<le> ?y1 - 1"
    using ScaleDown_ge_one x(1) y(1) by force+
  have x2: "0 \<le> ?x2" and y2: "0 \<le> ?y2"
    using ScaleDown_nonneg x(2) y(2) by auto
  have rows: "py_slice (?y1 - 1) ?y2 g = map ((!) g) [nat (?y1 - 1)..<nat ?y2]"
    using y1 y2 y(3) by (rule py_slice_nat)
  have cols: "py_slice (?x1 - 1) ?x2 (g ! i) = map ((!) (g ! i)) [nat (?x1 - 1)..<nat ?x2]"
    if "i < length g" for i
  proof -
    have "length (g ! i) = w" using rect that by simp
    thus ?thesis using x1 x2 x(3) by (intro py_slice_nat) auto
  qed
  have "i < length g" if "i \<in> set [nat (?y1 - 1)..<nat ?y2]" for i
    using that y(3) y2 by auto
  thus ?thesis
    unfolding OverlayTemperatureArray_def Let_def np_slice2_def rows
    by (simp add: cols)
qed


subsection \<open>Sums of rows and cells\<close>

lemma fadd_commute: "fadd a b = fadd b a"
  by (cases a; cases b) auto

lemma fadd_assoc: "fadd (fadd a b) c = fadd a (fadd b c)"
  by (cases a; cases b; cases c) auto

lemma fadd_zero_left: "fadd (Finite 0) a = a"
  by (cases a) auto

lemma fadd_zero_right: "fadd a (Finite 0) = a"
  by (cases a) auto

lemma foldl_fadd: "foldl fadd a xs = fadd a (foldr fadd xs (Finite 0))"
  by (induction xs arbitrary: a) (simp_all add: fadd_zero_right fadd_assoc)

lemma py_sum_foldr: "py_sum xs = foldr fadd xs (Finite 0)"
  by (simp add: py_sum_def foldl_fadd fadd_zero_left)

lemma foldr_fadd_acc: "foldr fadd xs a = fadd (foldr fadd xs (Finite 0)) a"
  by (induction xs) (simp_all add: fadd_zero_left fadd_assoc)

lemma fadd_interchange: "fadd (fadd a b) (fadd c d) = fadd (fadd a c) (fadd b d)"
proof -
  have "fadd (fadd a b) (fadd c d) = fadd a (fadd (fadd b c) d)"
    by (simp add: fadd_assoc)
  also have "fadd b c = fadd c b" by (rule fadd_commute)
  finally show ?thesis by (simp add: fadd_assoc)
qed

lemma foldr_fadd_map2:
  assumes "length xs = length ys"
  shows "foldr fadd (map2 fadd xs ys) (Finite 0) =
         fadd (foldr fadd xs (Finite 0)) (foldr fadd ys (Finite 0))"
  using assms
proof (induction xs ys rule: list_induct2)
  case Nil
  show ?case by (simp add: fadd_zero_left)
next
  case (Cons x xs y ys)
  thus ?case by (simp add: fadd_interchange)
qed

lemma foldl_add_row:
  assumes "\<forall>row\<in>set rows. length row = length acc"
  shows "\<exists>cs. foldl add_row (Some acc) rows = Some cs \<and> length cs = length acc \<and>
           foldr fadd cs (Finite 0) =
             fadd (foldr fadd acc (Finite 0)) (foldr fadd (concat rows) (Finite 0))"
  using assms
proof (induction rows arbitrary: acc)
  case Nil
  show ?case by (simp add: fadd_zero_right)
next
  case (Cons row rows)
  let ?acc = "map2 fadd acc row"
  have len: "length ?acc = length acc" using Cons.prems by simp
  hence "\<forall>r\<in>set rows. length r = length ?acc" using Cons.prems by simp
  from Cons.IH [OF this] obtain cs where
    s: "foldl add_row (Some ?acc) rows = Some cs" "length cs = length ?acc"
       "foldr fadd cs (Finite 0) =
          fadd (foldr fadd ?acc (Finite 0)) (foldr fadd (concat rows) (Finite 0))"
    by blast
  have "foldr fadd ?acc (Finite 0) = fadd (foldr fadd acc (Finite 0)) (foldr fadd row (Finite 0))"
    using Cons.prems by (intro foldr_fadd_map2) simp
  with s len show ?case
    by (simp add: foldr_fadd_acc [of row "foldr fadd (concat rows) (Finite 0)"] fadd_assoc)
qed

lemma py_sum_rows_Nil: "py_sum_rows [] = None"
  by (simp add: py_sum_rows_def)

lemma map_fadd_zero: "map (fadd (Finite 0)) row = row"
  by (induction row) (simp_all add: fadd_zero_left)

lemma py_sum_rows_Cons:
  assumes "\<forall>r\<in>set rows. length r = length row"
  shows "\<exists>cs. py_sum_rows (row # rows) = Some cs \<and> length cs = length row \<and>
           foldr fadd cs (Finite 0) = foldr fadd (concat (row # rows)) (Finite 0)"
proof -
  from foldl_add_row [OF assms] obtain cs where
    "foldl add_row (Some row) rows = Some cs" "length cs = length row"
    "foldr fadd cs (Finite 0) =
       fadd (foldr fadd row (Finite 0)) (foldr fadd (concat rows) (Finite 0))"
    by blast
  thus ?thesis
    by (simp add: py_sum_rows_def map_fadd_zero
          foldr_fadd_acc [of row "foldr fadd (concat rows) (Finite 0)"])
qed

lemma BoxTemperatureArray_rectangular:
  assumes "\<forall>row\<in>set g. length row = w"
  shows "\<exists>k. \<forall>row\<in>set (BoxTemperatureArray box g). length row = k"
proof -
  have "set (py_slice a b g) \<subseteq> set g" for a b
    unfolding py_slice_def Let_def by (meson set_take_subset set_drop_subset subset_trans)
  hence "length row = w" if "row \<in> set (py_slice a b g)" for a b row
    using assms that by blast
  thus ?thesis
    unfolding BoxTemperatureArray_def Let_def np_slice2_def
    by (auto simp: length_py_slice)
qed

lemma AverageTemperature_nonempty:
  assumes rect: "\<forall>row\<in>set g. length row = w"
    and ne: "concat (BoxTemperatureArray box g) \<noteq> []"
  shows "AverageTemperature box g = Inr (spec_mean (concat (BoxTemperatureArray box g)))"
proof -
  let ?r = "BoxTemperatureArray box g"
  from BoxTemperatureArray_rectangular [OF rect] obtain k where
    k: "\<forall>row\<in>set ?r. length row = k" by blast
  from ne obtain row rows where r: "?r = row # rows" by (cases ?r) auto
  from ne k have "k \<noteq> 0" by auto
  hence row: "row \<noteq> []" using k r by auto
  have "\<forall>x\<in>set rows. length x = length row" using k r by simp
  from py_sum_rows_Cons [OF this] obtain cs where
    s: "py_sum_rows ?r = Some cs" "length cs = length row"
       "foldr fadd cs (Finite 0) = foldr fadd (concat ?r) (Finite 0)"
    unfolding r by blast
  have "cs \<noteq> []" using s(2) row by auto
  thus ?thesis
    unfolding AverageTemperature_def Let_def spec_mean_def
    by (simp add: s py_sum_foldr np_size_def)
qed

lemma foldr_fadd_Finite: "foldr fadd (map Finite xs) (Finite 0) = Finite (sum_list xs)"
  by (induction xs) simp_all

lemma spec_mean_Finite:
  "xs \<noteq> [] \<Longrightarrow> spec_mean (map Finite xs) = Finite (sum_list xs / real (length xs))"
  by (simp add: spec_mean_def foldr_fadd_Finite)


text \<open>
  Claim C4, as amended. For a rectangular grid and a display rectangle whose low corner
  is at least 4 in both axes and whose truncated upper indices do not exceed the grid, the
  subregion taken for an overlay and for an average box spans, in each axis, from one
  index before the truncated low corner (inclusive) up to the truncated upper index,
  which is excluded.
\<close>

theorem TemperatureArray_half_open:
  assumes "\<forall>row\<in>set g. length row = w"
    and "4 \<le> X1 box" and "0 \<le> X2 box" and "ScaleDown (X2 box) \<le> int w"
    and "4 \<le> Y1 box" and "0 \<le> Y2 box" and "ScaleDown (Y2 box) \<le> int (length g)"
  shows "OverlayTemperatureArray box g =
           map (\<lambda>y. map (\<lambda>x. g ! y ! x) [nat (ScaleDown (X1 box) - 1)..<nat (ScaleDown (X2 box))])
               [nat (ScaleDown (Y1 box) - 1)..<nat (ScaleDown (Y2 box))]
         \<and> BoxTemperatureArray box g =
           map (\<lambda>y. map (\<lambda>x. g ! y ! x) [nat (ScaleDown (X1 box) - 1)..<nat (ScaleDown (X2 box))])
               [nat (ScaleDown (Y1 box) - 1)..<nat (ScaleDown (Y2 box))]"
  using OverlayTemperatureArray_half_open [OF assms] by (simp add: Box_eq_Overlay)

lemma ScaleDown_8: "ScaleDown 8 = 2" by (simp add: ScaleDown_def py_int_def)
lemma ScaleDown_16: "ScaleDown 16 = 4" by (simp add: ScaleDown_def py_int_def)
lemma ScaleDown_4: "ScaleDown 4 = 1" by (simp add: ScaleDown_def py_int_def)
lemma ScaleDown_0: "ScaleDown 0 = 0" by (simp add: ScaleDown_def py_int_def)
lemma ScaleDown_15: "ScaleDown 15 = 3" unfolding ScaleDown_def py_int_def by (simp; linarith)
lemma ScaleDown_2: "ScaleDown 2 = 0" unfolding ScaleDown_def py_int_def by (simp; linarith)
lemma ScaleDown_20: "ScaleDown 20 = 5" by (simp add: ScaleDown_def py_int_def)

theorem TemperatureArray_half_open_witness:
  "OverlayTemperatureArray \<lparr>X1 = 8, X2 = 16, Y1 = 8, Y2 = 16\<rparr> grid5 =
     [[Finite 11, Finite 12, Finite 13], [Finite 21, Finite 22, Finite 23],
      [Finite 31, Finite 32, Finite 33]]
   \<and> BoxTemperatureArray \<lparr>X1 = 8, X2 = 16, Y1 = 8, Y2 = 16\<rparr> grid5 =
     [[Finite 11, Finite 12, Finite 13], [Finite 21, Finite 22, Finite 23],
      [Finite 31, Finite 32, Finite 33]]"
  using TemperatureArray_half_open [of grid5 5 "\<lparr>X1 = 8, X2 = 16, Y1 = 8, Y2 = 16\<rparr>"]
  by (simp add: grid5_def ScaleDown_8 ScaleDown_16 upt_conv_Cons)

text \<open>
  The rectangle (8,8)-(16,16) on a 5x5 grid: rows and columns 1 to 3 are taken; the
  inclusive reading would take 1 to 4.
\<close>

theorem TemperatureArray_inclusive_counterexample:
  "OverlayTemperatureArray \<lparr>X1 = 8, X2 = 16, Y1 = 8, Y2 = 16\<rparr> grid5 =
     [[Finite 11, Finite 12, Finite 13], [Finite 21, Finite 22, Finite 23],
      [Finite 31, Finite 32, Finite 33]]
   \<and> spec_inclusive_region \<lparr>X1 = 8, X2 = 16, Y1 = 8, Y2 = 16\<rparr> grid5 =
     [[Finite 11, Finite 12, Finite 13, Finite 14], [Finite 21, Finite 22, Finite 23, Finite 24],
      [Finite 31, Finite 32, Finite 33, Finite 34], [Finite 41, Finite 42, Finite 43, Finite 44]]"
  by (simp add: OverlayTemperatureArray_def spec_inclusive_region_def np_slice2_def py_slice_def
        slice_bound_def grid5_def ScaleDown_8 ScaleDown_16 upto_rec1)


subsection \<open>Subregions without cells\<close>

lemma set_py_slice: "set (py_slice a b xs) \<subseteq> set xs"
  unfolding py_slice_def Let_def by (meson set_take_subset set_drop_subset subset_trans)

lemma np_slice2_low_column:
  assumes "\<forall>row\<in>set g. length row = w" and "0 \<le> c1" and "c1 < int w"
  shows "np_slice2 r0 r1 (- 1) c1 g = replicate (length (py_slice r0 r1 g)) []"
proof -
  have e: "py_slice (- 1) c1 row = []" if "row \<in> set (py_slice r0 r1 g)" for row
  proof -
    have "row \<in> set g" using that set_py_slice [of r0 r1 g] by (rule subsetD [rotated])
    hence "length row = w" using assms(1) by (rule bspec [rotated])
    hence "c1 < int (length row)" using assms(3) by simp
    with assms(2) show ?thesis by (rule py_slice_minus_one)
  qed
  have "map (py_slice (- 1) c1) (py_slice r0 r1 g) = map (\<lambda>_. []) (py_slice r0 r1 g)"
    by (rule map_cong [OF refl]) (rule e)
  thus ?thesis by (simp only: np_slice2_def map_replicate_const)
qed

lemma np_slice2_low_row:
  assumes "0 \<le> r1" and "r1 < int (length g)"
  shows "np_slice2 (- 1) r1 c0 c1 g = []"
  unfolding np_slice2_def using py_slice_minus_one [OF assms] by simp

lemma np_size_replicate_Nil: "np_size (replicate n []) = 0"
  by (induction n) (simp_all add: np_size_def)

lemma BoxTemperatureArray_low_corner_zero:
  assumes "length g = 120" and "\<forall>row\<in>set g. length row = 160"
    and "(0 \<le> X1 (box :: SelectionBox) \<and> X1 box < 4 \<and> 0 \<le> X2 box \<and> X2 box < 640) \<or>
         (0 \<le> Y1 box \<and> Y1 box < 4 \<and> 0 \<le> Y2 box \<and> Y2 box < 480)"
  shows "np_size (BoxTemperatureArray box g) = 0"
  using assms(3)
proof
  assume a: "0 \<le> X1 box \<and> X1 box < 4 \<and> 0 \<le> X2 box \<and> X2 box < 640"
  hence "ScaleDown (X1 box) - 1 = - 1" by (simp add: ScaleDown_low_zero)
  moreover have "0 \<le> ScaleDown (X2 box)" using a by (simp add: ScaleDown_nonneg)
  moreover have "ScaleDown (X2 box) < int 160" using a by (intro ScaleDown_less) auto
  ultimately show ?thesis
    unfolding BoxTemperatureArray_def Let_def
    using np_slice2_low_column [OF assms(2), of "ScaleDown (X2 box)" "ScaleDown (Y1 box) - 1"
            "ScaleDown (Y2 box)"]
    by (simp add: np_size_replicate_Nil)
next
  assume a: "0 \<le> Y1 box \<and> Y1 box < 4 \<and> 0 \<le> Y2 box \<and> Y2 box < 480"
  hence "ScaleDown (Y1 box) - 1 = - 1" by (simp add: ScaleDown_low_zero)
  moreover have "0 \<le> ScaleDown (Y2 box)" using a by (simp add: ScaleDown_nonneg)
  moreover have "ScaleDown (Y2 box) < int 120" using a by (intro ScaleDown_less) auto
  ultimately show ?thesis
    unfolding BoxTemperatureArray_def Let_def
    using np_slice2_low_row [of "ScaleDown (Y2 box)" g] assms(1) by (simp add: np_size_def)
qed

lemma example_box_region:
  assumes "length g = 120" and "\<forall>row\<in>set g. length row = 160"
  shows "BoxTemperatureArray \<lparr>X1 = 2, X2 = 20, Y1 = 8, Y2 = 20\<rparr> g = [[], [], [], []]"
proof -
  have "py_slice 1 5 g = map ((!) g) [nat 1..<nat 5]"
    using assms(1) by (intro py_slice_nat) auto
  hence "length (py_slice 1 5 g) = 4" by simp
  moreover have "np_slice2 1 5 (- 1) 5 g = replicate (length (py_slice 1 5 g)) []"
    using assms(2) by (rule np_slice2_low_column) auto
  ultimately have "np_slice2 1 5 (- 1) 5 g = replicate 4 []" by simp
  thus ?thesis
    by (simp add: BoxTemperatureArray_def ScaleDown_2 ScaleDown_20 ScaleDown_8 numeral_eq_Suc)
qed

lemma selection_then_average:
  assumes "MeasurementBoxes self = []"
    and "xdata ec < 640" "xdata er < 640" "ydata ec < 480" "ydata er < 480"
    and "AverageTemperature \<lparr>X1 = xdata ec, X2 = xdata er, Y1 = ydata ec, Y2 = ydata er\<rparr>
           (ThermalData self) = Inl e"
  shows "\<exists>s. CreateAverageTemperatureBox (SelectionBoxMouseClickCallback self ec er) = Inr s \<and>
             PlotMeasurementBoxes s = Inl e"
  using assms
  by (simp add: CreateAverageTemperatureBox_def SelectionBoxMouseClickCallback_def
        PlotMeasurementBoxes_def)

text \<open>
  Claim C10. On a grid of 120 rows and 160 columns there is a rectangle that the selection
  callback accepts (non-degenerate, inside the 640x480 bounds) whose truncated low
  column index is 0, so that the slice starts at -1, the subregion has no cell, and the
  average divides the integer 0 by the cell count 0: in a session without earlier boxes,
  \<^verbatim>\<open>CreateAverageTemperatureBox\<close> followed by \<^verbatim>\<open>PlotMeasurementBoxes\<close> raises
  \<^verbatim>\<open>ZeroDivisionError\<close>. Every rectangle within the bounds whose truncated low index
  is 0 in one axis has a subregion without cells.
\<close>

theorem AverageTemperature_empty_subregion:
  assumes "length (ThermalData self) = 120" and "\<forall>row\<in>set (ThermalData self). length row = 160"
  shows "(\<exists>eclick erelease box.
            0 \<le> xdata eclick \<and> xdata eclick < xdata erelease \<and> xdata erelease < 640 \<and>
            0 \<le> ydata eclick \<and> ydata eclick < ydata erelease \<and> ydata erelease < 480 \<and>
            CurrentSelectionBox (SelectionBoxMouseClickCallback self eclick erelease) = Some box \<and>
            ScaleDown (X1 box) - 1 = - 1 \<and>
            np_size (BoxTemperatureArray box (ThermalData self)) = 0 \<and>
            np_size (OverlayTemperatureArray box (ThermalData self)) = 0 \<and>
            AverageTemperature box (ThermalData self) = Inl ZeroDivisionError \<and>
            (MeasurementBoxes self = [] \<longrightarrow>
               (\<exists>s. CreateAverageTemperatureBox (SelectionBoxMouseClickCallback self eclick erelease)
                      = Inr s \<and> PlotMeasurementBoxes s = Inl ZeroDivisionError)))
         \<and> (\<forall>box :: SelectionBox. (0 \<le> X1 box \<and> X1 box < 4 \<and> 0 \<le> X2 box \<and> X2 box < 640) \<or>
                   (0 \<le> Y1 box \<and> Y1 box < 4 \<and> 0 \<le> Y2 box \<and> Y2 box < 480) \<longrightarrow>
              np_size (BoxTemperatureArray box (ThermalData self)) = 0)"
proof (intro conjI allI impI)
  let ?ec = "\<lparr>xdata = 2, ydata = 8, inaxes = 0\<rparr>" and ?er = "\<lparr>xdata = 20, ydata = 20, inaxes = 0\<rparr>"
  let ?box = "\<lparr>X1 = 2, X2 = 20, Y1 = 8, Y2 = 20\<rparr>"
  have r: "BoxTemperatureArray ?box (ThermalData self) = [[], [], [], []]"
    using assms by (rule example_box_region)
  have sel: "CurrentSelectionBox (SelectionBoxMouseClickCallback self ?ec ?er) = Some ?box"
    by (simp add: SelectionBoxMouseClickCallback_def)
  have avg: "AverageTemperature ?box (ThermalData self) = Inl ZeroDivisionError"
    by (simp add: AverageTemperature_def r py_sum_rows_def np_size_def py_truediv_def)
  have chain: "MeasurementBoxes self = [] \<longrightarrow>
      (\<exists>s. CreateAverageTemperatureBox (SelectionBoxMouseClickCallback self ?ec ?er) = Inr s \<and>
           PlotMeasurementBoxes s = Inl ZeroDivisionError)"
    using selection_then_average [of self ?ec ?er ZeroDivisionError] avg by simp
  have "np_size (BoxTemperatureArray ?box (ThermalData self)) = 0"
    by (simp add: r np_size_def)
  moreover have "np_size (OverlayTemperatureArray ?box (ThermalData self)) = 0"
    by (simp add: Box_eq_Overlay [symmetric] r np_size_def)
  moreover have "ScaleDown (X1 ?box) - 1 = - 1" by (simp add: ScaleDown_2)
  ultimately show "\<exists>eclick erelease box.
            0 \<le> xdata eclick \<and> xdata eclick < xdata erelease \<and> xdata erelease < 640 \<and>
            0 \<le> ydata eclick \<and> ydata eclick < ydata erelease \<and> ydata erelease < 480 \<and>
            CurrentSelectionBox (SelectionBoxMouseClickCallback self eclick erelease) = Some box \<and>
            ScaleDown (X1 box) - 1 = - 1 \<and>
            np_size (BoxTemperatureArray box (ThermalData self)) = 0 \<and>
            np_size (OverlayTemperatureArray box (ThermalData self)) = 0 \<and>
            AverageTemperature box (ThermalData self) = Inl ZeroDivisionError \<and>
            (MeasurementBoxes self = [] \<longrightarrow>
               (\<exists>s. CreateAverageTemperatureBox (SelectionBoxMouseClickCallback self eclick erelease)
                      = Inr s \<and> PlotMeasurementBoxes s = Inl ZeroDivisionError))"
    using sel avg chain
    by (intro exI [of _ ?ec] exI [of _ ?er] exI [of _ ?box]) simp
next
  fix box :: SelectionBox
  assume "(0 \<le> X1 box \<and> X1 box < 4 \<and> 0 \<le> X2 box \<and> X2 box < 640) \<or>
          (0 \<le> Y1 box \<and> Y1 box < 4 \<and> 0 \<le> Y2 box \<and> Y2 box < 480)"
  with assms show "np_size (BoxTemperatureArray box (ThermalData self)) = 0"
    by (rule BoxTemperatureArray_low_corner_zero)
qed

theorem AverageTemperature_empty_subregion_witness:
  "\<exists>eclick erelease box.
      0 \<le> xdata eclick \<and> xdata eclick < xdata erelease \<and> xdata erelease < 640 \<and>
      0 \<le> ydata eclick \<and> ydata eclick < ydata erelease \<and> ydata erelease < 480 \<and>
      CurrentSelectionBox (SelectionBoxMouseClickCallback example_session eclick erelease) = Some box \<and>
      ScaleDown (X1 box) - 1 = - 1 \<and>
      np_size (BoxTemperatureArray box (replicate 120 (replicate 160 (Finite 20)))) = 0 \<and>
      AverageTemperature box (replicate 120 (replicate 160 (Finite 20))) = Inl ZeroDivisionError \<and>
      (\<exists>s. CreateAverageTemperatureBox (SelectionBoxMouseClickCallback example_session eclick erelease)
             = Inr s \<and> PlotMeasurementBoxes s = Inl ZeroDivisionError)"
proof -
  have 1: "length (ThermalData example_session) = 120"
    by (simp add: example_session_def)
  have 2: "\<forall>row\<in>set (ThermalData example_session). length row = 160"
    by (simp add: example_session_def)
  have 3: "ThermalData example_session = replicate 120 (replicate 160 (Finite 20))"
    by (simp add: example_session_def)
  have 4: "MeasurementBoxes example_session = []"
    by (simp add: example_session_def)
  from AverageTemperature_empty_subregion [OF 1 2, THEN conjunct1] show ?thesis
    unfolding 3 using 4 by blast
qed


text \<open>
  \<^verbatim>\<open>PlotMeasurementBoxes\<close> takes the subregion by the rule of \<^verbatim>\<open>AddOverlayBox\<close>.
  When the subregion of a rectangular grid has at least one cell, the average is the sum
  of all its cells divided by their number, no cell being left out; for finite cells it
  is the arithmetic mean of their values.
\<close>

theorem AverageTemperature_is_mean:
  assumes "\<forall>row\<in>set g. length row = w" and "concat (BoxTemperatureArray box g) \<noteq> []"
  shows "BoxTemperatureArray box g = OverlayTemperatureArray box g
       \<and> AverageTemperature box g = Inr (spec_mean (concat (BoxTemperatureArray box g)))
       \<and> (\<forall>cells. concat (BoxTemperatureArray box g) = map Finite cells \<longrightarrow>
            AverageTemperature box g = Inr (Finite (sum_list cells / real (length cells))))"
proof (intro conjI allI impI)
  show "BoxTemperatureArray box g = OverlayTemperatureArray box g"
    by (rule Box_eq_Overlay)
  show m: "AverageTemperature box g = Inr (spec_mean (concat (BoxTemperatureArray box g)))"
    using assms by (rule AverageTemperature_nonempty)
  fix cells
  assume c: "concat (BoxTemperatureArray box g) = map Finite cells"
  hence "cells \<noteq> []" using assms(2) by auto
  thus "AverageTemperature box g = Inr (Finite (sum_list cells / real (length cells)))"
    unfolding m c by (simp add: spec_mean_Finite)
qed

lemma grid4_whole:
  "BoxTemperatureArray \<lparr>X1 = 4, X2 = 16, Y1 = 4, Y2 = 16\<rparr> grid4 = grid4"
  by (simp add: BoxTemperatureArray_def np_slice2_def py_slice_def slice_bound_def grid4_def
        ScaleDown_4 ScaleDown_16)

theorem AverageTemperature_is_mean_witness:
  "BoxTemperatureArray \<lparr>X1 = 4, X2 = 16, Y1 = 4, Y2 = 16\<rparr> grid4 = grid4 \<and>
   AverageTemperature \<lparr>X1 = 4, X2 = 16, Y1 = 4, Y2 = 16\<rparr> grid4 = Inr (Finite (17 / 2))"
proof -
  have 1: "\<forall>row\<in>set grid4. length row = 4" by (simp add: grid4_def)
  have 2: "concat (BoxTemperatureArray \<lparr>X1 = 4, X2 = 16, Y1 = 4, Y2 = 16\<rparr> grid4) \<noteq> []"
    by (simp add: grid4_whole) (simp add: grid4_def)
  have 3: "spec_mean (concat grid4) = Finite (17 / 2)"
    by (simp add: spec_mean_def grid4_def)
  from AverageTemperature_is_mean [OF 1 2] show ?thesis
    by (simp add: grid4_whole 3)
qed

text \<open>
  Claim C6 asks for the arithmetic mean of all grid values when the rectangle covers the
  entire grid. The display rectangle (0,0)-(15,15) covers a 4x4 grid: its truncated low
  corner is 0, both slices start at -1, the subregion has no rows and the outer
  \<^verbatim>\<open>sum\<close> raises \<^verbatim>\<open>TypeError\<close>, while the mean of the grid is 8.5.
\<close>

theorem AverageTemperature_whole_grid_failure:
  "AverageTemperature \<lparr>X1 = 0, X2 = 15, Y1 = 0, Y2 = 15\<rparr> grid4 = Inl TypeError \<and>
   spec_mean (concat grid4) = Finite (17 / 2)"
  by (simp add: AverageTemperature_def BoxTemperatureArray_def np_slice2_def py_slice_def
        slice_bound_def grid4_def ScaleDown_0 ScaleDown_15 py_sum_rows_def spec_mean_def)

section \<open>Markers\<close>

lemma overlay_scan_no_match:
  assumes "\<forall>ov\<in>set ovs. OverlayAxes ov \<noteq> inaxes ev"
  shows "overlay_scan ovs ev acc = Inr acc"
  using assms by (induction ovs arbitrary: acc) auto

lemma find_no_match:
  assumes "\<forall>ov\<in>set ovs. OverlayAxes ov \<noteq> inaxes ev"
  shows "find (\<lambda>ov. OverlayAxes ov = inaxes ev) ovs = None"
  using assms by (induction ovs) auto

lemma overlay_scan_distinct:
  assumes "distinct (map OverlayAxes ovs)"
  shows "overlay_scan ovs ev acc =
           (case find (\<lambda>ov. OverlayAxes ov = inaxes ev) ovs of
              None \<Rightarrow> Inr acc
            | Some ov \<Rightarrow>
                (case np_index2 (TemperatureArray ov) (ScaleDown (ydata ev)) (ScaleDown (xdata ev)) of
                   Inl e \<Rightarrow> Inl e | Inr t \<Rightarrow> Inr (Some t)))"
  using assms
proof (induction ovs arbitrary: acc)
  case Nil
  show ?case by simp
next
  case (Cons ov ovs)
  show ?case
  proof (cases "inaxes ev = OverlayAxes ov")
    case True
    have "OverlayAxes ov \<notin> OverlayAxes ` set ovs" using Cons.prems by simp
    hence "\<forall>o'\<in>set ovs. OverlayAxes o' \<noteq> inaxes ev"
      unfolding True by (metis imageI)
    hence "overlay_scan ovs ev a = Inr a" for a
      by (rule overlay_scan_no_match)
    thus ?thesis using True by (simp split: sum.splits)
  next
    case False
    moreover have "distinct (map OverlayAxes ovs)" using Cons.prems by simp
    ultimately show ?thesis using Cons.IH [of acc] by auto
  qed
qed

lemma py_index_error: "py_index xs i = Inl e \<Longrightarrow> e = IndexError"
  by (auto simp: py_index_def split: if_splits)

lemma np_index2_error: "np_index2 a i j = Inl e \<Longrightarrow> e = IndexError"
  by (auto simp: np_index2_def split: sum.splits dest: py_index_error)

lemma find_snoc:
  "find P (xs @ [x]) = (case find P xs of Some y \<Rightarrow> Some y | None \<Rightarrow> if P x then Some x else None)"
  by (induction xs) auto

text \<open>Without a break the loop keeps the sample of the last matching overlay.\<close>

lemma overlay_scan_last:
  assumes "\<forall>ov\<in>set ovs. OverlayAxes ov = inaxes ev \<longrightarrow>
             (\<exists>t. np_index2 (TemperatureArray ov) (ScaleDown (ydata ev)) (ScaleDown (xdata ev)) = Inr t)"
  shows "overlay_scan ovs ev acc =
           (case find (\<lambda>ov. OverlayAxes ov = inaxes ev) (rev ovs) of
              None \<Rightarrow> Inr acc
            | Some ov \<Rightarrow>
                (case np_index2 (TemperatureArray ov) (ScaleDown (ydata ev)) (ScaleDown (xdata ev)) of
                   Inl e \<Rightarrow> Inl e | Inr t \<Rightarrow> Inr (Some t)))"
  using assms
proof (induction ovs arbitrary: acc)
  case Nil
  show ?case by simp
next
  case (Cons ov ovs)
  have rest: "\<forall>ov\<in>set ovs. OverlayAxes ov = inaxes ev \<longrightarrow>
             (\<exists>t. np_index2 (TemperatureArray ov) (ScaleDown (ydata ev)) (ScaleDown (xdata ev)) = Inr t)"
    using Cons.prems by simp
  show ?case
  proof (cases "inaxes ev = OverlayAxes ov")
    case True
    then obtain t where
      t: "np_index2 (TemperatureArray ov) (ScaleDown (ydata ev)) (ScaleDown (xdata ev)) = Inr t"
      using Cons.prems by auto
    show ?thesis
      using True t Cons.IH [OF rest, of "Some t"]
      by (simp add: find_snoc split: option.splits)
  next
    case False
    thus ?thesis
      using Cons.IH [OF rest, of acc]
      by (auto simp: find_snoc split: option.splits)
  qed
qed

text \<open>A matching overlay whose array does not hold the index aborts the callback.\<close>

lemma overlay_scan_error:
  assumes "ov \<in> set ovs" and "OverlayAxes ov = inaxes ev"
    and "np_index2 (TemperatureArray ov) (ScaleDown (ydata ev)) (ScaleDown (xdata ev)) = Inl e"
  shows "overlay_scan ovs ev acc = Inl IndexError"
  using assms
proof (induction ovs arbitrary: acc)
  case Nil
  thus ?case by simp
next
  case (Cons a ovs)
  show ?case
  proof (cases "inaxes ev = OverlayAxes a")
    case True
    show ?thesis
    proof (cases "np_index2 (TemperatureArray a) (ScaleDown (ydata ev)) (ScaleDown (xdata ev))")
      case (Inl e')
      thus ?thesis using True np_index2_error [OF Inl] by simp
    next
      case (Inr t)
      hence "ov \<noteq> a" using Cons.prems(3) by auto
      hence "ov \<in> set ovs" using Cons.prems(1) by simp
      from Cons.IH [OF this Cons.prems(2,3)] show ?thesis using True Inr by simp
    qed
  next
    case False
    hence "ov \<noteq> a" using Cons.prems(2) by auto
    hence "ov \<in> set ovs" using Cons.prems(1) by simp
    from Cons.IH [OF this Cons.prems(2,3)] show ?thesis using False by simp
  qed
qed

text \<open>
  Claim C5, as amended. An event with a coordinate of at most 1.0 is ignored: the session
  is returned as it was and nothing is sampled. For an event whose two coordinates exceed
  1.0 and a sequence of overlays with pairwise different axes, the marker callback records
  the temperature that the specification's \<^verbatim>\<open>SamplePoint\<close> returns: the first overlay
  in creation order whose axes received the event is sampled in its own temperature array
  at the index of the overlay-local coordinates divided by 4, and the base thermal data is
  sampled only when no overlay matches. For any sequence of overlays the loop, having no
  \<^verbatim>\<open>break\<close>, records the sample of the last matching overlay when every matching
  overlay holds the index, and raises \<^verbatim>\<open>IndexError\<close> when one of them does not.
\<close>

theorem AddMeasurementPoint_samples_claiming_overlay:
  "(\<not> (1 < xdata ev \<and> 1 < ydata ev) \<longrightarrow>
      AddMeasurementPointMouseClickCallback self ev = Inr self)
   \<and> (1 < xdata ev \<and> 1 < ydata ev \<and> distinct (map OverlayAxes (OverlayBoxes self)) \<longrightarrow>
      AddMeasurementPointMouseClickCallback self ev =
        (case spec_SamplePoint ev (OverlayBoxes self) (ThermalData self) of
           Inl e \<Rightarrow> Inl e
         | Inr t \<Rightarrow>
             Inr (self\<lparr>MeasurementPoints := MeasurementPoints self @
                    [\<lparr>X = xdata ev, Y = ydata ev, HostAxes = inaxes ev, Temperature = t\<rparr>]\<rparr>)))
   \<and> (1 < xdata ev \<and> 1 < ydata ev \<and>
        (\<forall>ov\<in>set (OverlayBoxes self). OverlayAxes ov = inaxes ev \<longrightarrow>
           (\<exists>t. np_index2 (TemperatureArray ov) (ScaleDown (ydata ev)) (ScaleDown (xdata ev)) = Inr t)) \<longrightarrow>
      AddMeasurementPointMouseClickCallback self ev =
        (case spec_SamplePoint ev (rev (OverlayBoxes self)) (ThermalData self) of
           Inl e \<Rightarrow> Inl e
         | Inr t \<Rightarrow>
             Inr (self\<lparr>MeasurementPoints := MeasurementPoints self @
                    [\<lparr>X = xdata ev, Y = ydata ev, HostAxes = inaxes ev, Temperature = t\<rparr>]\<rparr>)))
   \<and> (1 < xdata ev \<and> 1 < ydata ev \<and>
        (\<exists>ov\<in>set (OverlayBoxes self). OverlayAxes ov = inaxes ev \<and>
           (\<exists>e. np_index2 (TemperatureArray ov) (ScaleDown (ydata ev)) (ScaleDown (xdata ev)) = Inl e)) \<longrightarrow>
      AddMeasurementPointMouseClickCallback self ev = Inl IndexError)"
proof (intro conjI impI)
  assume "\<not> (1 < xdata ev \<and> 1 < ydata ev)"
  thus "AddMeasurementPointMouseClickCallback self ev = Inr self"
    by (auto simp: AddMeasurementPointMouseClickCallback_def)
next
  assume a: "1 < xdata ev \<and> 1 < ydata ev \<and> distinct (map OverlayAxes (OverlayBoxes self))"
  hence d: "distinct (map OverlayAxes (OverlayBoxes self))" by simp
  show "AddMeasurementPointMouseClickCallback self ev =
        (case spec_SamplePoint ev (OverlayBoxes self) (ThermalData self) of
           Inl e \<Rightarrow> Inl e
         | Inr t \<Rightarrow>
             Inr (self\<lparr>MeasurementPoints := MeasurementPoints self @
                    [\<lparr>X = xdata ev, Y = ydata ev, HostAxes = inaxes ev, Temperature = t\<rparr>]\<rparr>))"
    using a
    unfolding AddMeasurementPointMouseClickCallback_def spec_SamplePoint_def
      overlay_scan_distinct [OF d]
    by (simp split: option.splits sum.splits)
next
  assume a: "1 < xdata ev \<and> 1 < ydata ev \<and>
        (\<forall>ov\<in>set (OverlayBoxes self). OverlayAxes ov = inaxes ev \<longrightarrow>
           (\<exists>t. np_index2 (TemperatureArray ov) (ScaleDown (ydata ev)) (ScaleDown (xdata ev)) = Inr t))"
  hence r: "\<forall>ov\<in>set (OverlayBoxes self). OverlayAxes ov = inaxes ev \<longrightarrow>
           (\<exists>t. np_index2 (TemperatureArray ov) (ScaleDown (ydata ev)) (ScaleDown (xdata ev)) = Inr t)"
    by simp
  show "AddMeasurementPointMouseClickCallback self ev =
        (case spec_SamplePoint ev (rev (OverlayBoxes self)) (ThermalData self) of
           Inl e \<Rightarrow> Inl e
         | Inr t \<Rightarrow>
             Inr (self\<lparr>MeasurementPoints := MeasurementPoints self @
                    [\<lparr>X = xdata ev, Y = ydata ev, HostAxes = inaxes ev, Temperature = t\<rparr>]\<rparr>))"
    using a
    unfolding AddMeasurementPointMouseClickCallback_def spec_SamplePoint_def
      overlay_scan_last [OF r]
    by (simp split: option.splits sum.splits)
next
  assume a: "1 < xdata ev \<and> 1 < ydata ev \<and>
        (\<exists>ov\<in>set (OverlayBoxes self). OverlayAxes ov = inaxes ev \<and>
           (\<exists>e. np_index2 (TemperatureArray ov) (ScaleDown (ydata ev)) (ScaleDown (xdata ev)) = Inl e))"
  then obtain ov e where "ov \<in> set (OverlayBoxes self)" "OverlayAxes ov = inaxes ev"
    "np_index2 (TemperatureArray ov) (ScaleDown (ydata ev)) (ScaleDown (xdata ev)) = Inl e"
    by blast
  hence "overlay_scan (OverlayBoxes self) ev None = Inl IndexError"
    by (rule overlay_scan_error)
  thus "AddMeasurementPointMouseClickCallback self ev = Inl IndexError"
    using a by (simp add: AddMeasurementPointMouseClickCallback_def)
qed

theorem AddMeasurementPoint_samples_claiming_overlay_witness:
  "AddMeasurementPointMouseClickCallback marker_session \<lparr>xdata = 5, ydata = 2, inaxes = 7\<rparr> =
     Inr (marker_session\<lparr>MeasurementPoints :=
            [\<lparr>X = 5, Y = 2, HostAxes = 7, Temperature = Finite 101\<rparr>]\<rparr>)
   \<and> AddMeasurementPointMouseClickCallback marker_session \<lparr>xdata = 5, ydata = 2, inaxes = 0\<rparr> =
     Inr (marker_session\<lparr>MeasurementPoints :=
            [\<lparr>X = 5, Y = 2, HostAxes = 0, Temperature = Finite 2\<rparr>]\<rparr>)
   \<and> AddMeasurementPointMouseClickCallback marker_session \<lparr>xdata = 1, ydata = 5, inaxes = 7\<rparr> =
     Inr marker_session
   \<and> AddMeasurementPointMouseClickCallback marker_session \<lparr>xdata = 9, ydata = 2, inaxes = 7\<rparr> =
     Inl IndexError"
proof -
  have d: "distinct (map OverlayAxes (OverlayBoxes marker_session))"
    by (simp add: marker_session_def)
  have s5: "ScaleDown 5 = 1" unfolding ScaleDown_def py_int_def by (simp; linarith)
  have s2: "ScaleDown 2 = 0" unfolding ScaleDown_def py_int_def by (simp; linarith)
  have s9: "ScaleDown 9 = 2" unfolding ScaleDown_def py_int_def by (simp; linarith)
  have 1: "spec_SamplePoint \<lparr>xdata = 5, ydata = 2, inaxes = 7\<rparr>
             (OverlayBoxes marker_session) (ThermalData marker_session) = Inr (Finite 101)"
    by (simp add: spec_SamplePoint_def marker_session_def np_index2_def py_index_def s5 s2)
  have 2: "spec_SamplePoint \<lparr>xdata = 5, ydata = 2, inaxes = 0\<rparr>
             (OverlayBoxes marker_session) (ThermalData marker_session) = Inr (Finite 2)"
    by (simp add: spec_SamplePoint_def marker_session_def np_index2_def py_index_def s5 s2
          grid4_def)
  have 3: "\<exists>ov\<in>set (OverlayBoxes marker_session). OverlayAxes ov = 7 \<and>
             (\<exists>e. np_index2 (TemperatureArray ov) 0 2 = Inl e)"
    by (simp add: marker_session_def np_index2_def py_index_def)
  have m: "MeasurementPoints marker_session = []" by (simp add: marker_session_def)
  note t = AddMeasurementPoint_samples_claiming_overlay
  have a: "AddMeasurementPointMouseClickCallback marker_session \<lparr>xdata = 5, ydata = 2, inaxes = 7\<rparr> =
     Inr (marker_session\<lparr>MeasurementPoints :=
            [\<lparr>X = 5, Y = 2, HostAxes = 7, Temperature = Finite 101\<rparr>]\<rparr>)"
    using t [of "\<lparr>xdata = 5, ydata = 2, inaxes = 7\<rparr>" marker_session, THEN conjunct2, THEN conjunct1]
    by (simp add: d 1 m)
  have b: "AddMeasurementPointMouseClickCallback marker_session \<lparr>xdata = 5, ydata = 2, inaxes = 0\<rparr> =
     Inr (marker_session\<lparr>MeasurementPoints :=
            [\<lparr>X = 5, Y = 2, HostAxes = 0, Temperature = Finite 2\<rparr>]\<rparr>)"
    using t [of "\<lparr>xdata = 5, ydata = 2, inaxes = 0\<rparr>" marker_session, THEN conjunct2, THEN conjunct1]
    by (simp add: d 2 m)
  have c: "AddMeasurementPointMouseClickCallback marker_session \<lparr>xdata = 1, ydata = 5, inaxes = 7\<rparr> =
     Inr marker_session"
    using t [of "\<lparr>xdata = 1, ydata = 5, inaxes = 7\<rparr>" marker_session, THEN conjunct1]
    by simp
  have e: "AddMeasurementPointMouseClickCallback marker_session \<lparr>xdata = 9, ydata = 2, inaxes = 7\<rparr> =
     Inl IndexError"
    using t [of "\<lparr>xdata = 9, ydata = 2, inaxes = 7\<rparr>" marker_session,
             THEN conjunct2, THEN conjunct2, THEN conjunct2] 3
    by (simp add: s9 s2)
  have 4: "spec_SamplePoint \<lparr>xdata = 5, ydata = 2, inaxes = 7\<rparr>
             (rev (OverlayBoxes marker_session)) (ThermalData marker_session) = Inr (Finite 101)"
    by (simp add: spec_SamplePoint_def marker_session_def np_index2_def py_index_def s5 s2)
  have 5: "\<forall>ov\<in>set (OverlayBoxes marker_session). OverlayAxes ov = 7 \<longrightarrow>
             (\<exists>t. np_index2 (TemperatureArray ov) 0 1 = Inr t)"
    by (simp add: marker_session_def np_index2_def py_index_def)
  have a': "AddMeasurementPointMouseClickCallback marker_session \<lparr>xdata = 5, ydata = 2, inaxes = 7\<rparr> =
     Inr (marker_session\<lparr>MeasurementPoints :=
            [\<lparr>X = 5, Y = 2, HostAxes = 7, Temperature = Finite 101\<rparr>]\<rparr>)"
    using t [of "\<lparr>xdata = 5, ydata = 2, inaxes = 7\<rparr>" marker_session,
             THEN conjunct2, THEN conjunct2, THEN conjunct1] 5
    by (simp add: 4 m s5 s2)
  from a a' b c e show ?thesis by simp
qed

text \<open>
  An event at (0.5, 0.5) on the base axes: the guard of line 213 fails, the session is
  returned as it was and nothing is sampled, although the base field holds a value there.
\<close>

theorem AddMeasurementPoint_guard_counterexample:
  "AddMeasurementPointMouseClickCallback marker_session \<lparr>xdata = 1/2, ydata = 1/2, inaxes = 0\<rparr> =
     Inr marker_session
   \<and> MeasurementPoints marker_session = []
   \<and> spec_SamplePoint \<lparr>xdata = 1/2, ydata = 1/2, inaxes = 0\<rparr>
        (OverlayBoxes marker_session) (ThermalData marker_session) = Inr (Finite 1)"
proof -
  have s: "ScaleDown (1/2) = 0" unfolding ScaleDown_def py_int_def by (simp; linarith)
  show ?thesis
    by (simp add: AddMeasurementPointMouseClickCallback_def spec_SamplePoint_def
          marker_session_def np_index2_def py_index_def s grid4_def)
qed

section \<open>Extrema and normalisation\<close>

subsection \<open>Extrema\<close>

lemma fle_refl: "a \<noteq> NaN \<Longrightarrow> fle a a"
  by (cases a) (auto simp: fle_def)

lemma fle_trans: "fle a b \<Longrightarrow> fle b c \<Longrightarrow> fle a c"
  by (cases a; cases b; cases c) (auto simp: fle_def)

lemma fle_total: "a \<noteq> NaN \<Longrightarrow> b \<noteq> NaN \<Longrightarrow> fless b a \<or> fle a b"
  by (cases a; cases b) (auto simp: fle_def)

lemma fless_fle: "fless a b \<Longrightarrow> fle a b"
  by (simp add: fle_def)

lemma feq_iff: "v \<noteq> NaN \<Longrightarrow> feq a v \<longleftrightarrow> a = v"
  by (cases a; cases v) auto

lemma np_min2_props:
  assumes "a \<noteq> NaN" and "b \<noteq> NaN"
  shows "np_min2 a b \<noteq> NaN" "np_min2 a b = a \<or> np_min2 a b = b"
    "fle (np_min2 a b) a" "fle (np_min2 a b) b"
  using assms fle_total [of a b] by (auto simp: np_min2_def fle_refl fless_fle)

lemma np_max2_props:
  assumes "a \<noteq> NaN" and "b \<noteq> NaN"
  shows "np_max2 a b \<noteq> NaN" "np_max2 a b = a \<or> np_max2 a b = b"
    "fle a (np_max2 a b)" "fle b (np_max2 a b)"
  using assms fle_total [of b a] by (auto simp: np_max2_def fle_refl fless_fle)

lemma foldl_np_min2:
  assumes "a \<noteq> NaN" and "NaN \<notin> set xs"
  shows "foldl np_min2 a xs \<in> set (a # xs) \<and> foldl np_min2 a xs \<noteq> NaN \<and>
         (\<forall>c\<in>set (a # xs). fle (foldl np_min2 a xs) c)"
  using assms
proof (induction xs arbitrary: a)
  case Nil
  thus ?case by (simp add: fle_refl)
next
  case (Cons x xs)
  let ?a = "np_min2 a x"
  have x: "x \<noteq> NaN" and xs: "NaN \<notin> set xs" using Cons.prems by auto
  note p = np_min2_props [OF Cons.prems(1) x]
  from Cons.IH [OF p(1) xs]
  have m: "foldl np_min2 ?a xs \<in> set (?a # xs)" "foldl np_min2 ?a xs \<noteq> NaN"
    "\<forall>c\<in>set (?a # xs). fle (foldl np_min2 ?a xs) c" by blast+
  hence le: "fle (foldl np_min2 ?a xs) ?a" by simp
  have "fle (foldl np_min2 ?a xs) a" using le p(3) by (rule fle_trans)
  moreover have "fle (foldl np_min2 ?a xs) x" using le p(4) by (rule fle_trans)
  moreover have "foldl np_min2 ?a xs \<in> set (a # x # xs)" using m(1) p(2) by auto
  ultimately show ?case using m by simp
qed

lemma foldl_np_max2:
  assumes "a \<noteq> NaN" and "NaN \<notin> set xs"
  shows "foldl np_max2 a xs \<in> set (a # xs) \<and> foldl np_max2 a xs \<noteq> NaN \<and>
         (\<forall>c\<in>set (a # xs). fle c (foldl np_max2 a xs))"
  using assms
proof (induction xs arbitrary: a)
  case Nil
  thus ?case by (simp add: fle_refl)
next
  case (Cons x xs)
  let ?a = "np_max2 a x"
  have x: "x \<noteq> NaN" and xs: "NaN \<notin> set xs" using Cons.prems by auto
  note p = np_max2_props [OF Cons.prems(1) x]
  from Cons.IH [OF p(1) xs]
  have m: "foldl np_max2 ?a xs \<in> set (?a # xs)" "foldl np_max2 ?a xs \<noteq> NaN"
    "\<forall>c\<in>set (?a # xs). fle c (foldl np_max2 ?a xs)" by blast+
  hence le: "fle ?a (foldl np_max2 ?a xs)" by simp
  have "fle a (foldl np_max2 ?a xs)" using p(3) le by (rule fle_trans)
  moreover have "fle x (foldl np_max2 ?a xs)" using p(4) le by (rule fle_trans)
  moreover have "foldl np_max2 ?a xs \<in> set (a # x # xs)" using m(1) p(2) by auto
  ultimately show ?case using m by simp
qed

lemma np_amin_props:
  assumes "concat g \<noteq> []" and "NaN \<notin> set (concat g)"
  shows "\<exists>lo. np_amin g = Inr lo \<and> lo \<in> set (concat g) \<and> lo \<noteq> NaN \<and>
           (\<forall>c\<in>set (concat g). fle lo c)"
proof -
  from assms(1) obtain a xs where c: "concat g = a # xs" by (cases "concat g") auto
  hence "a \<noteq> NaN" "NaN \<notin> set xs" using assms(2) by auto
  from foldl_np_min2 [OF this] show ?thesis
    unfolding np_amin_def c by simp
qed

lemma np_amax_props:
  assumes "concat g \<noteq> []" and "NaN \<notin> set (concat g)"
  shows "\<exists>hi. np_amax g = Inr hi \<and> hi \<in> set (concat g) \<and> hi \<noteq> NaN \<and>
           (\<forall>c\<in>set (concat g). fle c hi)"
proof -
  from assms(1) obtain a xs where c: "concat g = a # xs" by (cases "concat g") auto
  hence "a \<noteq> NaN" "NaN \<notin> set xs" using assms(2) by auto
  from foldl_np_max2 [OF this] show ?thesis
    unfolding np_amax_def c by simp
qed

subsection \<open>Grids without cells or with nan\<close>

lemma foldl_np_min2_NaN: "a = NaN \<or> NaN \<in> set xs \<Longrightarrow> foldl np_min2 a xs = NaN"
  by (induction xs arbitrary: a) (auto simp: np_min2_def)

lemma where_rows_NaN: "where_rows y rows NaN = []"
proof (induction rows arbitrary: y)
  case Nil
  show ?case by simp
next
  case (Cons row rows)
  have "feq v NaN = False" for v by (cases v) auto
  thus ?case by (simp add: Cons.IH)
qed

lemma GetMinMaxTemperatureAndLocation_empty:
  assumes "concat g = []"
  shows "GetMinMaxTemperatureAndLocation g = Inl ValueError"
proof -
  have "np_amin g = Inl ValueError" unfolding np_amin_def assms by simp
  thus ?thesis by (simp add: GetMinMaxTemperatureAndLocation_def)
qed

lemma GetMinMaxTemperatureAndLocation_NaN:
  assumes "NaN \<in> set (concat g)"
  shows "GetMinMaxTemperatureAndLocation g = Inl IndexError"
proof -
  from assms obtain a xs where c: "concat g = a # xs" by (cases "concat g") auto
  hence "a = NaN \<or> NaN \<in> set xs" using assms by auto
  hence "np_amin g = Inr NaN"
    by (simp add: np_amin_def c foldl_np_min2_NaN)
  thus ?thesis
    by (simp add: GetMinMaxTemperatureAndLocation_def np_amax_def c np_where_eq_def where_rows_NaN)
qed

lemma RescaleImageColorMap_empty:
  assumes "concat g = []"
  shows "RescaleImageColorMap g = Inl ValueError"
proof -
  have "np_amin g = Inl ValueError" unfolding np_amin_def assms by simp
  thus ?thesis by (simp add: RescaleImageColorMap_def)
qed

subsection \<open>Locations\<close>

lemma where_rows_filter:
  "where_rows y0 rows v =
     concat (map (\<lambda>i. map (Pair (y0 + i)) (filter (\<lambda>x. feq (rows ! i ! x) v) [0..<length (rows ! i)]))
               [0..<length rows])"
proof (induction rows arbitrary: y0)
  case Nil
  show ?case by simp
next
  case (Cons row rows)
  have "[0..<Suc (length rows)] = 0 # [Suc 0..<Suc (length rows)]"
    by (rule upt_conv_Cons) simp
  also have "[Suc 0..<Suc (length rows)] = map Suc [0..<length rows]"
    by (simp only: map_Suc_upt)
  finally have "[0..<length (row # rows)] = 0 # map Suc [0..<length rows]"
    by simp
  thus ?case by (simp add: Cons.IH comp_def)
qed

lemma np_where_eq_filter:
  "np_where_eq g v = filter (\<lambda>(y, x). feq (g ! y ! x) v) (row_major_positions g)"
  by (simp add: np_where_eq_def where_rows_filter row_major_positions_def filter_concat
        filter_map comp_def)

lemma find_filter_hd: "find P xs = (case filter P xs of [] \<Rightarrow> None | x # _ \<Rightarrow> Some x)"
  by (induction xs) auto

lemma set_row_major_positions:
  "set (row_major_positions g) = {(y, x). y < length g \<and> x < length (g ! y)}"
  by (auto simp: row_major_positions_def)

lemma in_concat_position:
  assumes "c \<in> set (concat g)"
  shows "\<exists>y x. y < length g \<and> x < length (g ! y) \<and> g ! y ! x = c"
proof -
  from assms obtain row where "row \<in> set g" "c \<in> set row" by auto
  then obtain y x where "y < length g" "g ! y = row" "x < length row" "row ! x = c"
    by (auto simp: in_set_conv_nth)
  thus ?thesis by blast
qed

lemma first_location_exists:
  assumes "c \<in> set (concat g)" and "c \<noteq> NaN"
  shows "\<exists>y x ps. np_where_eq g c = (y, x) # ps \<and> spec_first_location g c = Some (y, x) \<and>
           y < length g \<and> x < length (g ! y) \<and> g ! y ! x = c"
proof -
  from in_concat_position [OF assms(1)] obtain y x where
    "y < length g" "x < length (g ! y)" "g ! y ! x = c" by blast
  hence "(y, x) \<in> set (np_where_eq g c)"
    using assms(2) by (simp add: np_where_eq_filter set_row_major_positions feq_iff)
  then obtain p ps where w: "np_where_eq g c = p # ps" by (cases "np_where_eq g c") auto
  hence "p \<in> set (np_where_eq g c)" by simp
  hence p: "fst p < length g" "snd p < length (g ! fst p)" "g ! fst p ! snd p = c"
    using assms(2) by (auto simp: np_where_eq_filter set_row_major_positions feq_iff)
  have "(\<lambda>(y, x). feq (g ! y ! x) c) = (\<lambda>(y, x). g ! y ! x = c)"
    using assms(2) by (simp add: feq_iff)
  hence "spec_first_location g c = Some p"
    using w by (simp add: spec_first_location_def find_filter_hd np_where_eq_filter)
  thus ?thesis using w p by (cases p) auto
qed


text \<open>
  Claim C7, as amended. For every grid with at least one cell and without \<open>nan\<close>,
  \<^verbatim>\<open>GetMinMaxTemperatureAndLocation\<close> returns the minimum and the maximum of the cells
  together with their locations in display coordinates, the pair (4 * column, 4 * row) of
  the first cell in row-major order that holds the extremum.
\<close>

theorem GetMinMaxTemperatureAndLocation_first_in_display_space:
  assumes "concat g \<noteq> []" and "NaN \<notin> set (concat g)"
  shows "\<exists>lo hi ymin xmin ymax xmax.
           GetMinMaxTemperatureAndLocation g =
             Inr (lo, hi, (4 * int xmin, 4 * int ymin), (4 * int xmax, 4 * int ymax))
         \<and> lo \<in> set (concat g) \<and> hi \<in> set (concat g)
         \<and> (\<forall>c\<in>set (concat g). fle lo c \<and> fle c hi)
         \<and> spec_first_location g lo = Some (ymin, xmin)
         \<and> spec_first_location g hi = Some (ymax, xmax)"
proof -
  from np_amin_props [OF assms] obtain lo where
    lo: "np_amin g = Inr lo" "lo \<in> set (concat g)" "lo \<noteq> NaN" "\<forall>c\<in>set (concat g). fle lo c"
    by blast
  from np_amax_props [OF assms] obtain hi where
    hi: "np_amax g = Inr hi" "hi \<in> set (concat g)" "hi \<noteq> NaN" "\<forall>c\<in>set (concat g). fle c hi"
    by blast
  from first_location_exists [OF lo(2,3)] obtain ymin xmin ps where
    mn: "np_where_eq g lo = (ymin, xmin) # ps" "spec_first_location g lo = Some (ymin, xmin)"
        "g ! ymin ! xmin = lo" by blast
  from first_location_exists [OF hi(2,3)] obtain ymax xmax qs where
    mx: "np_where_eq g hi = (ymax, xmax) # qs" "spec_first_location g hi = Some (ymax, xmax)"
        "g ! ymax ! xmax = hi" by blast
  have "GetMinMaxTemperatureAndLocation g =
          Inr (lo, hi, (4 * int xmin, 4 * int ymin), (4 * int xmax, 4 * int ymax))"
    by (simp add: GetMinMaxTemperatureAndLocation_def lo(1) hi(1) mn mx ScaleUp_def)
  thus ?thesis using lo(2,4) hi(2,4) mn(2) mx(2) by blast
qed

lemma grid_ties_result:
  "GetMinMaxTemperatureAndLocation grid_ties = Inr (Finite 1, Finite 9, (4, 0), (0, 4))"
  by (simp add: GetMinMaxTemperatureAndLocation_def grid_ties_def np_amin_def np_amax_def
        np_min2_def np_max2_def np_where_eq_def ScaleUp_def upt_conv_Cons)

theorem GetMinMaxTemperatureAndLocation_first_in_display_space_witness:
  "GetMinMaxTemperatureAndLocation grid_ties = Inr (Finite 1, Finite 9, (4, 0), (0, 4))
   \<and> (\<exists>lo hi ymin xmin ymax xmax.
           GetMinMaxTemperatureAndLocation grid_ties =
             Inr (lo, hi, (4 * int xmin, 4 * int ymin), (4 * int xmax, 4 * int ymax))
         \<and> lo \<in> set (concat grid_ties) \<and> hi \<in> set (concat grid_ties)
         \<and> (\<forall>c\<in>set (concat grid_ties). fle lo c \<and> fle c hi)
         \<and> spec_first_location grid_ties lo = Some (ymin, xmin)
         \<and> spec_first_location grid_ties hi = Some (ymax, xmax))"
proof -
  have 1: "concat grid_ties \<noteq> []" by (simp add: grid_ties_def)
  have 2: "NaN \<notin> set (concat grid_ties)" by (simp add: grid_ties_def)
  from GetMinMaxTemperatureAndLocation_first_in_display_space [OF 1 2] grid_ties_result
  show ?thesis by (rule conjI [rotated])
qed

text \<open>
  The minimum of this 2x2 grid sits in row 1, column 0; the location returned is (0, 4),
  the display coordinates, and not the data-space index.
\<close>

theorem GetMinMaxTemperatureAndLocation_data_space_counterexample:
  "GetMinMaxTemperatureAndLocation [[Finite 1, Finite 2], [Finite 0, Finite 3]] =
     Inr (Finite 0, Finite 3, (0, 4), (4, 4))
   \<and> spec_first_location [[Finite 1, Finite 2], [Finite 0, Finite 3]] (Finite 0) = Some (1, 0)
   \<and> spec_first_location [[Finite 1, Finite 2], [Finite 0, Finite 3]] (Finite 3) = Some (1, 1)"
  by (simp add: GetMinMaxTemperatureAndLocation_def np_amin_def np_amax_def
        np_min2_def np_max2_def np_where_eq_def ScaleUp_def upt_conv_Cons
        spec_first_location_def row_major_positions_def)

subsection \<open>Normalisation\<close>















end
